theory Spec2Isabelle
  imports Complex_Main
begin

section \<open>Python values, byte strings and text\<close>

text \<open>
  The driver class \<^verbatim>\<open>MEMS_device\<close> of \<^verbatim>\<open>MEMS_serial_device.py\<close> talks to a mirror
  driver board over a serial line. A byte string (\<^verbatim>\<open>bytes\<close>) is a list of 8-bit characters.
  A text (\<^verbatim>\<open>str\<close>) is represented by its UTF-8 encoding: ASCII characters are one byte each, so
  comparing a text with an ASCII literal, and slicing ASCII characters off its end, are the same
  operations on the encoding.
\<close>

type_synonym bytes = string

abbreviation CR :: char where "CR \<equiv> CHR 0x0D"
abbreviation LF :: char where "LF \<equiv> CHR 0x0A"

datatype py_error = IndexError | TypeError | UnicodeEncodeError | UnicodeDecodeError

text \<open>
  A float is the rational it denotes, the negative zero, an infinity or a NaN; every finite
  float is a rational, and Python compares a float with an int by value. \<open>Finite 0\<close> is the
  float \<^verbatim>\<open>0.0\<close> and \<open>NegZero\<close> the float \<^verbatim>\<open>-0.0\<close>: they are equal as numbers and print differently.
\<close>

datatype pyfloat = Finite rat | NegZero | PosInf | NegInf | NaN

datatype pyval =
    PyNone
  | PyBool bool
  | PyInt int
  | PyFloat pyfloat
  | PyStr string
  | PyBytes bytes

definition is_ascii :: "char \<Rightarrow> bool" where
  "is_ascii c = ((of_char c :: nat) < 128)"

definition byte_in :: "nat \<Rightarrow> nat \<Rightarrow> char \<Rightarrow> bool" where
  "byte_in lo hi c = (lo \<le> of_char c \<and> of_char c \<le> hi)"

text \<open>
  \<^verbatim>\<open>bytes.decode()\<close> is the strict UTF-8 codec of the interpreter: it raises
  \<^verbatim>\<open>UnicodeDecodeError\<close> unless the bytes are well-formed UTF-8 (no overlong form, no
  surrogate, nothing above U+10FFFF).
\<close>

fun utf8_valid :: "bytes \<Rightarrow> bool" where
  "utf8_valid [] = True"
| "utf8_valid (a # bs) =
    (if byte_in 0x00 0x7F a then utf8_valid bs
     else if byte_in 0xC2 0xDF a then
       (case bs of b # r \<Rightarrow> byte_in 0x80 0xBF b \<and> utf8_valid r | _ \<Rightarrow> False)
     else if byte_in 0xE0 0xEF a then
       (case bs of b # c # r \<Rightarrow>
           byte_in (if a = CHR 0xE0 then 0xA0 else 0x80) (if a = CHR 0xED then 0x9F else 0xBF) b
           \<and> byte_in 0x80 0xBF c \<and> utf8_valid r
        | _ \<Rightarrow> False)
     else if byte_in 0xF0 0xF4 a then
       (case bs of b # c # d # r \<Rightarrow>
           byte_in (if a = CHR 0xF0 then 0x90 else 0x80) (if a = CHR 0xF4 then 0x8F else 0xBF) b
           \<and> byte_in 0x80 0xBF c \<and> byte_in 0x80 0xBF d \<and> utf8_valid r
        | _ \<Rightarrow> False)
     else False)"

definition decode :: "bytes \<Rightarrow> py_error + string" where
  "decode b = (if utf8_valid b then Inr b else Inl UnicodeDecodeError)"

text \<open>\<^verbatim>\<open>bytes(cmd, 'ascii')\<close>: a text with a character outside ASCII cannot be encoded.\<close>

definition bytes_ascii :: "string \<Rightarrow> py_error + bytes" where
  "bytes_ascii t = (if list_all is_ascii t then Inr t else Inl UnicodeEncodeError)"

text \<open>The slices \<^verbatim>\<open>t[-n:]\<close> and \<^verbatim>\<open>t[:-n]\<close>; neither raises on a short sequence.\<close>

definition slice_last :: "nat \<Rightarrow> 'a list \<Rightarrow> 'a list" where
  "slice_last n t = drop (length t - n) t"

definition slice_but_last :: "nat \<Rightarrow> 'a list \<Rightarrow> 'a list" where
  "slice_but_last n t = take (length t - n) t"

subsection \<open>Rendering values: \<^verbatim>\<open>str(v)\<close>\<close>

fun digits :: "nat \<Rightarrow> string" where
  "digits n =
     (if n < 10 then [''0123456789'' ! n]
      else digits (n div 10) @ [''0123456789'' ! (n mod 10)])"

declare digits.simps [simp del]

definition str_int :: "int \<Rightarrow> string" where
  "str_int i = (if i < 0 then CHR ''-'' # digits (nat (- i)) else digits (nat i))"

definition hex2 :: "nat \<Rightarrow> string" where
  "hex2 n = [''0123456789abcdef'' ! (n div 16 mod 16), ''0123456789abcdef'' ! (n mod 16)]"

text \<open>
  The \<^verbatim>\<open>repr\<close> of a byte string, which \<^verbatim>\<open>print\<close> shows for a \<^verbatim>\<open>bytes\<close> argument: single quotes,
  unless the bytes hold a single quote and no double quote.
\<close>

definition bytes_quote :: "bytes \<Rightarrow> char" where
  "bytes_quote b =
     (if CHR 0x27 \<in> set b \<and> CHR 0x22 \<notin> set b then CHR 0x22 else CHR 0x27)"

definition byte_repr :: "char \<Rightarrow> char \<Rightarrow> string" where
  "byte_repr q c =
     (if c = q \<or> c = CHR 0x5C then [CHR 0x5C, c]
      else if c = CHR 0x09 then [CHR 0x5C, CHR ''t'']
      else if c = LF then [CHR 0x5C, CHR ''n'']
      else if c = CR then [CHR 0x5C, CHR ''r'']
      else if (of_char c :: nat) < 0x20 \<or> 0x7F \<le> (of_char c :: nat)
        then [CHR 0x5C, CHR ''x''] @ hex2 (of_char c)
      else [c])"

definition bytes_repr :: "bytes \<Rightarrow> string" where
  "bytes_repr b =
     (let q = bytes_quote b in CHR ''b'' # q # concat (map (byte_repr q) b) @ [q])"

text \<open>
  \<^verbatim>\<open>str\<close> of a float is the interpreter's shortest round-trip rendering, which is not part of
  this repository: it is the parameter \<open>fr\<close>. Its result type holds ASCII text only.
\<close>

definition py_str :: "(pyfloat \<Rightarrow> String.literal) \<Rightarrow> pyval \<Rightarrow> string" where
  "py_str fr v =
     (case v of
        PyNone \<Rightarrow> ''None''
      | PyBool b \<Rightarrow> (if b then ''True'' else ''False'')
      | PyInt i \<Rightarrow> str_int i
      | PyFloat f \<Rightarrow> String.explode (fr f)
      | PyStr t \<Rightarrow> t
      | PyBytes b \<Rightarrow> bytes_repr b)"

definition str_setting :: "int option \<Rightarrow> string" where
  "str_setting v = (case v of None \<Rightarrow> ''None'' | Some i \<Rightarrow> str_int i)"

subsection \<open>Comparing a value with an int\<close>

text \<open>
  \<^verbatim>\<open>v < k\<close> and \<^verbatim>\<open>v > k\<close> for an int \<open>k\<close>: defined on numbers (a bool counts as 0 or 1, a NaN
  compares false), \<^verbatim>\<open>TypeError\<close> on anything else. \<^verbatim>\<open>v != 0\<close> never raises.
\<close>

definition float_lt :: "pyfloat \<Rightarrow> int \<Rightarrow> bool" where
  "float_lt f k =
     (case f of
        Finite q \<Rightarrow> q < of_int k
      | NegZero \<Rightarrow> 0 < k
      | PosInf \<Rightarrow> False
      | NegInf \<Rightarrow> True
      | NaN \<Rightarrow> False)"

definition float_gt :: "pyfloat \<Rightarrow> int \<Rightarrow> bool" where
  "float_gt f k =
     (case f of
        Finite q \<Rightarrow> of_int k < q
      | NegZero \<Rightarrow> k < 0
      | PosInf \<Rightarrow> True
      | NegInf \<Rightarrow> False
      | NaN \<Rightarrow> False)"

definition py_lt :: "pyval \<Rightarrow> int \<Rightarrow> py_error + bool" where
  "py_lt v k =
     (case v of
        PyInt i \<Rightarrow> Inr (i < k)
      | PyBool b \<Rightarrow> Inr ((if b then 1 else 0) < k)
      | PyFloat f \<Rightarrow> Inr (float_lt f k)
      | _ \<Rightarrow> Inl TypeError)"

definition py_gt :: "pyval \<Rightarrow> int \<Rightarrow> py_error + bool" where
  "py_gt v k =
     (case v of
        PyInt i \<Rightarrow> Inr (k < i)
      | PyBool b \<Rightarrow> Inr (k < (if b then 1 else 0))
      | PyFloat f \<Rightarrow> Inr (float_gt f k)
      | _ \<Rightarrow> Inl TypeError)"

definition py_ne_zero :: "pyval \<Rightarrow> bool" where
  "py_ne_zero v =
     (case v of
        PyInt i \<Rightarrow> i \<noteq> 0
      | PyBool b \<Rightarrow> b
      | PyFloat f \<Rightarrow> f \<noteq> Finite 0 \<and> f \<noteq> NegZero
      | _ \<Rightarrow> True)"

text \<open>Truthiness, as \<^verbatim>\<open>not did_it_work\<close> reads it.\<close>

definition truthy :: "pyval \<Rightarrow> bool" where
  "truthy v =
     (case v of
        PyNone \<Rightarrow> False
      | PyBool b \<Rightarrow> b
      | PyInt i \<Rightarrow> i \<noteq> 0
      | PyFloat f \<Rightarrow> f \<noteq> Finite 0 \<and> f \<noteq> NegZero
      | PyStr t \<Rightarrow> t \<noteq> []
      | PyBytes b \<Rightarrow> b \<noteq> [])"

section \<open>The transport\<close>

text \<open>
  Modelled from the spec: the transport is pySerial's \<^verbatim>\<open>Serial\<close> object, an external
  collaborator with the contract \<^verbatim>\<open>write(bytes)\<close>, \<^verbatim>\<open>readUpTo(n)\<close>, \<^verbatim>\<open>readLine()\<close> (empty when
  nothing arrived) and \<^verbatim>\<open>close()\<close>. Here it is a scripted channel: \<open>written\<close> logs every
  payload written, in order; \<open>rx\<close> holds what the device answers, one entry per read call, and a
  read with nothing left returns the empty byte string.
\<close>

record transport =
  port :: string
  written :: "bytes list"
  rx :: "bytes list"
  is_open :: bool

definition ser_write :: "bytes \<Rightarrow> transport \<Rightarrow> transport" where
  "ser_write b t = t\<lparr>written := written t @ [b]\<rparr>"

definition ser_read :: "nat \<Rightarrow> transport \<Rightarrow> bytes \<times> transport" where
  "ser_read n t =
     (case rx t of [] \<Rightarrow> ([], t) | r # rs \<Rightarrow> (take n r, t\<lparr>rx := rs\<rparr>))"

definition first_line :: "bytes \<Rightarrow> bytes" where
  "first_line r = takeWhile (\<lambda>c. c \<noteq> LF) r @ take 1 (dropWhile (\<lambda>c. c \<noteq> LF) r)"

definition ser_readline :: "transport \<Rightarrow> bytes \<times> transport" where
  "ser_readline t =
     (case rx t of [] \<Rightarrow> ([], t) | r # rs \<Rightarrow> (first_line r, t\<lparr>rx := rs\<rparr>))"

definition ser_close :: "transport \<Rightarrow> transport" where
  "ser_close t = t\<lparr>is_open := False\<rparr>"

section \<open>The device session\<close>

text \<open>
  The state of one \<^verbatim>\<open>MEMS_device\<close>: the transport, the high-voltage flag, the \<^verbatim>\<open>settings\<close> and
  \<^verbatim>\<open>position\<close> dictionaries (fixed keys, so records), and the lines printed so far. The two
  dictionaries are the class-level ones, as this session sees them while it is the one that
  runs. A method returns its result, or the exception it raised, together with the state it
  leaves. \<^verbatim>\<open>sleep\<close> changes nothing here.
\<close>

record settings_dict =
  Vbias :: "int option"
  VdifferenceMax :: "int option"
  HardwareFilterBW :: "int option"

record position_dict =
  pos_x :: pyval
  pos_y :: pyval

record MEMS_device =
  ser :: transport
  is_HV_on :: bool
  settings :: settings_dict
  position :: position_dict
  printed :: "string list"

definition print_line :: "string \<Rightarrow> MEMS_device \<Rightarrow> MEMS_device" where
  "print_line l s = s\<lparr>printed := printed s @ [l]\<rparr>"

abbreviation ack :: string where "ack \<equiv> ''MTI-OK'' @ [CR, LF]"

abbreviation already_logged_in :: bytes where
  "already_logged_in \<equiv> ''MTI-ERR InvalidCommand'' @ [CR, LF]"

abbreviation exit_ack :: bytes where
  "exit_ack \<equiv> ''MTI-Device Exit Command Mode'' @ [CR, LF]"

subsection \<open>Sign-on: \<^verbatim>\<open>__init__\<close>\<close>

text \<open>
  \<^verbatim>\<open>settings\<close> and \<^verbatim>\<open>position\<close> are dictionaries declared at class level and mutated in place, so
  every instance shares them: a session constructed after another one starts with the values
  the earlier one cached. \<open>class_attrs\<close> holds the two dictionaries as they are when the
  constructor runs. \<^verbatim>\<open>is_HV_on\<close> is assigned on the instance, so the class-level \<^verbatim>\<open>False\<close> is what a
  new instance reads. \<open>init t verbose c\<close> is the constructor run on the opened port \<open>t\<close>.
\<close>

record class_attrs =
  class_settings :: settings_dict
  class_position :: position_dict

definition init :: "transport \<Rightarrow> bool \<Rightarrow> class_attrs \<Rightarrow> (py_error + unit) \<times> MEMS_device" where
  "init t verbose c =
     (case ser_readline (ser_write (''$MTI$'' @ [LF]) t) of (resp, t') \<Rightarrow>
       let s = \<lparr>ser = t', is_HV_on = False,
                settings = class_settings c,
                position = class_position c,
                printed = []\<rparr>
       in if resp = [] then
            (Inr (),
             print_line ''See readme for additional guidance''
              (print_line ''    ls -l /dev/insert_your_port_name_here''
               (print_line ''To check port permissions, open a terminal and run the command:''
                (print_line ''    ls -l /dev/serial/by-id''
                 (print_line ''To check USB connections, open a terminal and run the command:''
                  (print_line
                    (''Connection unsuccessful: no MEMS driver found on port: '' @ port t') s))))))
          else if verbose \<and> resp \<noteq> already_logged_in then
            (case decode resp of
               Inl e \<Rightarrow> (Inl e, s)
             | Inr txt \<Rightarrow> (Inr (), print_line txt s))
          else (Inr (), s))"

subsection \<open>Printing the settings: \<^verbatim>\<open>__str__\<close>\<close>

definition str_device :: "MEMS_device \<Rightarrow> string \<times> MEMS_device" where
  "str_device s =
     (let s1 = print_line ''==------MEMS DRIVER------=='' s;
          s2 = (if is_HV_on s1 then print_line ''Driver is currently ON'' s1
                else print_line ''Driver is currently OFF'' s1);
          s3 = print_line (''           Vbias = '' @ str_setting (Vbias (settings s2))) s2;
          s4 = print_line (''  VdifferenceMax = '' @ str_setting (VdifferenceMax (settings s3))) s3;
          s5 = print_line (''HardwareFilterBW = '' @ str_setting (HardwareFilterBW (settings s4))) s4
      in ([], print_line ''==-----------------------=='' s5))"

subsection \<open>The command exchange: \<^verbatim>\<open>_send_cmd\<close>\<close>

text \<open>
  \<open>format_cmd\<close> is the block under \<^verbatim>\<open>## Format the command\<close>: coerce to bytes, strip a trailing
  CR LF or LF CR, strip a trailing CR, append a LF unless the last character is one. Each test
  decodes the bytes first, and the last one indexes the text at \<^verbatim>\<open>[-1]\<close>.
\<close>

definition to_bytes :: "pyval \<Rightarrow> py_error + bytes" where
  "to_bytes cmd =
     (case cmd of PyBytes b \<Rightarrow> Inr b | PyStr t \<Rightarrow> bytes_ascii t | _ \<Rightarrow> Inl TypeError)"

definition format_cmd :: "pyval \<Rightarrow> py_error + bytes" where
  "format_cmd cmd =
     (case to_bytes cmd of Inl e \<Rightarrow> Inl e | Inr c0 \<Rightarrow>
      (case decode c0 of Inl e \<Rightarrow> Inl e | Inr t0 \<Rightarrow>
        let c1 = (if slice_last 2 t0 = [CR, LF] \<or> slice_last 2 t0 = [LF, CR]
                  then slice_but_last 2 c0 else c0)
        in (case decode c1 of Inl e \<Rightarrow> Inl e | Inr t1 \<Rightarrow>
          let c2 = (if slice_last 1 t1 = [CR] then slice_but_last 1 c1 else c1)
          in (case decode c2 of Inl e \<Rightarrow> Inl e | Inr t2 \<Rightarrow>
            if t2 = [] then Inl IndexError
            else if last t2 \<noteq> LF then Inr (c2 @ [LF])
            else Inr c2))))"

definition send_cmd ::
  "pyval \<Rightarrow> nat \<Rightarrow> bool \<Rightarrow> bool \<Rightarrow> MEMS_device \<Rightarrow> (py_error + string) \<times> MEMS_device" where
  "send_cmd cmd read_n_char print_resp print_cmd s =
     (case format_cmd cmd of
        Inl e \<Rightarrow> (Inl e, s)
      | Inr c \<Rightarrow>
          let s1 = (if print_cmd then print_line (''Sending command: '' @ bytes_repr c) s else s);
              s2 = s1\<lparr>ser := ser_write c (ser s1)\<rparr>
          in (case ser_read read_n_char (ser s2) of (raw, t) \<Rightarrow>
               let s3 = s2\<lparr>ser := t\<rparr>
               in (case decode raw of
                     Inl e \<Rightarrow> (Inl e, s3)
                   | Inr resp \<Rightarrow>
                       (Inr resp,
                        if print_resp then print_line (''Response: '' @ resp) s3 else s3))))"

subsection \<open>The parameter setters\<close>

definition set_Vbias :: "pyval \<Rightarrow> bool \<Rightarrow> MEMS_device \<Rightarrow> (py_error + bool) \<times> MEMS_device" where
  "set_Vbias v verbose s =
     (if is_HV_on s then
        (Inr False, print_line ''Error: cannot change parameters while mirror is on'' s)
      else
        (case (case v of PyInt n \<Rightarrow> if n < 0 \<or> 100 < n then None else Some n | _ \<Rightarrow> None) of
           None \<Rightarrow>
             (Inr False,
              print_line (''Error: invalid selection. Vbias should be a positive integer in range [0,100]'' @ [LF]) s)
         | Some n \<Rightarrow>
             let s1 = (if verbose then print_line (''Setting Vbias to '' @ str_int n) s else s)
             in (case send_cmd (PyStr (''MTI+VB '' @ str_int n)) 250 verbose False s1 of
                   (Inl e, s2) \<Rightarrow> (Inl e, s2)
                 | (Inr resp, s2) \<Rightarrow>
                     if resp = ack
                     then (Inr True, s2\<lparr>settings := (settings s2)\<lparr>Vbias := Some n\<rparr>\<rparr>)
                     else (Inr False, s2))))"

definition set_VdifferenceMax ::
  "pyval \<Rightarrow> bool \<Rightarrow> bool \<Rightarrow> MEMS_device \<Rightarrow> (py_error + bool) \<times> MEMS_device" where
  "set_VdifferenceMax v verbose safety s =
     (if is_HV_on s then
        (Inr False, print_line ''Error: cannot change parameters while mirror is on'' s)
      else
        (case (case v of PyInt n \<Rightarrow> if n < 0 \<or> 200 < n then None else Some n | _ \<Rightarrow> None) of
           None \<Rightarrow>
             (Inr False,
              print_line (''Error: invalid selection. VdifferenceMax should be a positive integer in range [0,200]'' @ [LF]) s)
         | Some n \<Rightarrow>
             let s1 = (if verbose then print_line (''Setting VdifferenceMax to '' @ str_int n) s else s)
             in (case send_cmd (PyStr (''MTI+VD '' @ str_int n)) 250 verbose False s1 of
                   (Inl e, s2) \<Rightarrow> (Inl e, s2)
                 | (Inr resp, s2) \<Rightarrow>
                     if resp = ack
                     then (Inr True, s2\<lparr>settings := (settings s2)\<lparr>VdifferenceMax := Some n\<rparr>\<rparr>)
                     else (Inr False, s2))))"

definition set_HardwareFilterBW ::
  "pyval \<Rightarrow> bool \<Rightarrow> MEMS_device \<Rightarrow> (py_error + bool) \<times> MEMS_device" where
  "set_HardwareFilterBW v verbose s =
     (if is_HV_on s then
        (Inr False, print_line ''Error: cannot change parameters while mirror is on'' s)
      else
        (case (case v of PyInt n \<Rightarrow> if n < 50 \<or> 15000 < n then None else Some n | _ \<Rightarrow> None) of
           None \<Rightarrow>
             (Inr False,
              print_line (''Error: invalid selection. HardwareFilterBW should be a positive integer in range [50,15000]'' @ [LF]) s)
         | Some n \<Rightarrow>
             let s1 = (if verbose then print_line (''Setting HardwareFilterBW to '' @ str_int n) s else s)
             in (case send_cmd (PyStr (''MTI+BW '' @ str_int n)) 250 verbose False s1 of
                   (Inl e, s2) \<Rightarrow> (Inl e, s2)
                 | (Inr resp, s2) \<Rightarrow>
                     if resp = ack
                     then (Inr True, s2\<lparr>settings := (settings s2)\<lparr>HardwareFilterBW := Some n\<rparr>\<rparr>)
                     else (Inr False, s2))))"

text \<open>
  \<^verbatim>\<open>set_mirror_params\<close> calls the three setters with their default \<^verbatim>\<open>verbose\<close>; an exception of
  one of them leaves the method at once.
\<close>

definition set_mirror_params ::
  "pyval \<Rightarrow> pyval \<Rightarrow> pyval \<Rightarrow> bool \<Rightarrow> MEMS_device \<Rightarrow> (py_error + bool) \<times> MEMS_device" where
  "set_mirror_params v1 v2 v3 verbose s =
     (case set_Vbias v1 True s of
        (Inl e, s1) \<Rightarrow> (Inl e, s1)
      | (Inr cmd1_sent, s1) \<Rightarrow>
     (case set_VdifferenceMax v2 True True s1 of
        (Inl e, s2) \<Rightarrow> (Inl e, s2)
      | (Inr cmd2_sent, s2) \<Rightarrow>
     (case set_HardwareFilterBW v3 True s2 of
        (Inl e, s3) \<Rightarrow> (Inl e, s3)
      | (Inr cmd3_sent, s3) \<Rightarrow>
          (Inr (\<not> (\<not> cmd1_sent \<or> \<not> cmd2_sent \<or> \<not> cmd3_sent)), s3))))"

definition get_mirror_params ::
  "bool \<Rightarrow> MEMS_device \<Rightarrow> (int option \<times> int option \<times> int option) \<times> MEMS_device" where
  "get_mirror_params verbose s =
     (let s1 = (if verbose then (case str_device s of (t, s') \<Rightarrow> print_line t s') else s)
      in ((Vbias (settings s1), VdifferenceMax (settings s1), HardwareFilterBW (settings s1)), s1))"

subsection \<open>Position control\<close>

text \<open>\<^verbatim>\<open>a or b\<close> on comparisons that may raise: \<open>b\<close> is looked at only when \<open>a\<close> is false.\<close>

definition py_or :: "py_error + bool \<Rightarrow> py_error + bool \<Rightarrow> py_error + bool" where
  "py_or a b = (case a of Inl e \<Rightarrow> Inl e | Inr True \<Rightarrow> Inr True | Inr False \<Rightarrow> b)"

definition set_mirror_position ::
  "(pyfloat \<Rightarrow> String.literal) \<Rightarrow> pyval \<Rightarrow> pyval \<Rightarrow> bool \<Rightarrow> MEMS_device
     \<Rightarrow> (py_error + pyval) \<times> MEMS_device" where
  "set_mirror_position fr x y verbose s =
     (case py_or (py_lt x (- 1)) (py_or (py_lt y (- 1)) (py_or (py_gt x 1) (py_gt y 1))) of
        Inl e \<Rightarrow> (Inl e, s)
      | Inr True \<Rightarrow>
          (Inr (PyBool False),
           print_line (''Error: invalid selection. X, y should be values in range [0,1]'' @ [LF]) s)
      | Inr False \<Rightarrow>
          let s1 = (if \<not> is_HV_on s \<and> verbose
                    then print_line ''Note that driver state is OFF right now.'' s else s);
              s2 = (if verbose
                    then print_line (''Going to position x =  '' @ py_str fr x @ '' , y =  '' @ py_str fr y) s1
                    else s1)
          in (case send_cmd (PyStr (''MTI+GT '' @ py_str fr x @ '' '' @ py_str fr y @ '' 0''))
                     250 verbose False s2 of
                (Inl e, s3) \<Rightarrow> (Inl e, s3)
              | (Inr resp, s3) \<Rightarrow>
                  if resp = ack
                  then (Inr (PyBool True), s3\<lparr>position := (position s3)\<lparr>pos_x := x, pos_y := y\<rparr>\<rparr>)
                  else (Inr PyNone, s3)))"

definition get_mirror_position ::
  "(pyfloat \<Rightarrow> String.literal) \<Rightarrow> bool \<Rightarrow> MEMS_device \<Rightarrow> (pyval \<times> pyval) \<times> MEMS_device" where
  "get_mirror_position fr verbose s =
     (let x = pos_x (position s);
          y = pos_y (position s);
          s1 = (if verbose \<and> \<not> is_HV_on s
                then print_line ''Warning: mirror currently switched off. Position is currently [0,0], but set to go to:'' s
                else s);
          s2 = (if verbose then print_line (''Mirror position x = '' @ py_str fr x) s1 else s1);
          s3 = (if verbose then print_line (''Mirror position y = '' @ py_str fr y @ '' '' @ [LF]) s2 else s2)
      in ((x, y), s3))"

subsection \<open>High-voltage control\<close>

definition HV_on :: "bool \<Rightarrow> MEMS_device \<Rightarrow> (py_error + bool) \<times> MEMS_device" where
  "HV_on verbose s =
     (case get_mirror_params False s of ((vb, vd, hw), s0) \<Rightarrow>
       if list_ex (\<lambda>i. i = None) [vb, vd, hw] then
         (Inr False,
          print_line ''Set Vbias, VdifferenceMax, and HardwarefilterBW before turning on mirror''
           (print_line ''Error: missing mirror parameters.'' s0))
       else
         (case send_cmd (PyStr (''MTI+EN'' @ [LF])) 250 verbose False
                 (print_line ''Turning High Voltage on'' s0) of
            (Inl e, s2) \<Rightarrow> (Inl e, s2)
          | (Inr resp, s2) \<Rightarrow>
              if resp = ack then (Inr True, s2\<lparr>is_HV_on := True\<rparr>) else (Inr False, s2)))"

definition HV_off :: "bool \<Rightarrow> MEMS_device \<Rightarrow> (py_error + bool) \<times> MEMS_device" where
  "HV_off verbose s =
     (case send_cmd (PyStr (''MTI+DI'' @ [LF])) 250 verbose False
             (if verbose then print_line ''Turning High Voltage off'' s else s) of
        (Inl e, s2) \<Rightarrow> (Inl e, s2)
      | (Inr resp, s2) \<Rightarrow>
          if resp = ack then (Inr True, s2\<lparr>is_HV_on := False\<rparr>) else (Inr False, s2))"

definition troubleshoot :: "MEMS_device \<Rightarrow> (py_error + unit) \<times> MEMS_device" where
  "troubleshoot s =
     (case send_cmd (PyStr (''MTI+EC'' @ [LF])) 250 True True
             (print_line ''Turning on serial responses'' s) of
        (Inl e, s2) \<Rightarrow> (Inl e, s2)
      | (Inr resp, s2) \<Rightarrow> (Inr (), s2))"

subsection \<open>The exit sequence: \<^verbatim>\<open>exit_safely\<close>\<close>

text \<open>
  The three blocks of \<^verbatim>\<open>exit_safely\<close>, in the order of the source: return the mirror to the
  centre, turn the high voltage off, log out and close. An exception in a block ends the method
  there.
\<close>

definition exit_recentre ::
  "(pyfloat \<Rightarrow> String.literal) \<Rightarrow> bool \<Rightarrow> MEMS_device \<Rightarrow> (py_error + unit) \<times> MEMS_device" where
  "exit_recentre fr verbose s =
     (case get_mirror_position fr False s of ((xpos, ypos), s1) \<Rightarrow>
       if py_ne_zero xpos \<or> py_ne_zero ypos then
         (case set_mirror_position fr (PyInt 0) (PyInt 0) False
                 (if verbose then print_line ''Returning to position [0,0]'' s1 else s1) of
            (Inl e, s3) \<Rightarrow> (Inl e, s3)
          | (Inr did_it_work, s3) \<Rightarrow>
              (Inr (),
               if truthy did_it_work then s3
               else print_line ''Warning: could not return mirror to [0,0]'' s3))
       else (Inr (), s1))"

definition exit_HV_off :: "bool \<Rightarrow> MEMS_device \<Rightarrow> (py_error + unit) \<times> MEMS_device" where
  "exit_HV_off verbose s =
     (if is_HV_on s then
        (case HV_off False (if verbose then print_line ''Turning HV off'' s else s) of
           (Inl e, s2) \<Rightarrow> (Inl e, s2)
         | (Inr did_it_work, s2) \<Rightarrow>
             (Inr (), if did_it_work then s2 else print_line ''Warning: could not turn HV off'' s2))
      else (Inr (), s))"

definition exit_logout :: "bool \<Rightarrow> MEMS_device \<Rightarrow> (py_error + bool) \<times> MEMS_device" where
  "exit_logout verbose s =
     (let s1 = (if verbose then print_line ''Logging off:'' s else s);
          s2 = s1\<lparr>ser := ser_write (''MTI+EX'' @ [LF]) (ser s1)\<rparr>
      in (case ser_readline (ser s2) of (response, t) \<Rightarrow>
           let s3 = s2\<lparr>ser := t\<rparr>
           in (case (if verbose
                     then (case decode response of
                             Inl e \<Rightarrow> Inl e
                           | Inr txt \<Rightarrow> Inr (print_line txt s3))
                     else Inr s3) of
                 Inl e \<Rightarrow> (Inl e, s3)
               | Inr s4 \<Rightarrow>
                   if response = exit_ack then
                     (let s5 = s4\<lparr>ser := ser_close (ser s4)\<rparr>
                      in (Inr True, if verbose then print_line ''Disconnection successful'' s5 else s5))
                   else
                     (Inr False,
                      print_line ''for manual debugging, the pyserial connection object is stored as self.ser''
                       (print_line ''Error: cannot exit command mode on device.  Keeping serial port open'' s4)))))"

definition exit_safely ::
  "(pyfloat \<Rightarrow> String.literal) \<Rightarrow> bool \<Rightarrow> MEMS_device \<Rightarrow> (py_error + bool) \<times> MEMS_device" where
  "exit_safely fr verbose s =
     (case exit_recentre fr verbose (if verbose then print_line ''Starting Exit Sequence'' s else s) of
        (Inl e, s1) \<Rightarrow> (Inl e, s1)
      | (Inr u, s1) \<Rightarrow>
     (case exit_HV_off verbose s1 of
        (Inl e, s2) \<Rightarrow> (Inl e, s2)
      | (Inr u', s2) \<Rightarrow> exit_logout verbose s2))"

section \<open>Vocabulary of the statements\<close>

text \<open>
  \<open>reply s\<close> is what the next command exchange of the session \<open>s\<close> reads from the device.
  \<open>int_in_range lo hi v\<close> says that \<open>v\<close> is an int of the closed range. \<open>mock replies\<close> is a
  session on a port whose device will answer \<open>replies\<close>, with the defaults of the class.
\<close>

definition reply :: "MEMS_device \<Rightarrow> bytes" where
  "reply s = fst (ser_read 250 (ser s))"

definition int_in_range :: "int \<Rightarrow> int \<Rightarrow> pyval \<Rightarrow> bool" where
  "int_in_range lo hi v = (case v of PyInt n \<Rightarrow> lo \<le> n \<and> n \<le> hi | _ \<Rightarrow> False)"

text \<open>
  \<open>setter_cmd lo hi tok v\<close> lists what a setter with the range \<open>lo\<close> to \<open>hi\<close> and the command token
  \<open>tok\<close> transmits for the value \<open>v\<close>: one command for an int of the range, nothing otherwise.
\<close>

definition setter_cmd :: "int \<Rightarrow> int \<Rightarrow> string \<Rightarrow> pyval \<Rightarrow> bytes list" where
  "setter_cmd lo hi tok v =
     (case v of
        PyInt n \<Rightarrow> if lo \<le> n \<and> n \<le> hi then [tok @ str_int n @ [LF]] else []
      | _ \<Rightarrow> [])"

text \<open>
  A position axis is a number: an int, a bool or a float. \<open>within_unit v\<close> says that the number
  \<open>v\<close> lies in the closed range from -1 to 1, \<open>beyond_unit v\<close> that it is below -1 or above 1; a
  NaN is neither.
\<close>

definition is_number :: "pyval \<Rightarrow> bool" where
  "is_number v = (case v of PyInt i \<Rightarrow> True | PyBool b \<Rightarrow> True | PyFloat f \<Rightarrow> True | _ \<Rightarrow> False)"


definition beyond_unit :: "pyval \<Rightarrow> bool" where
  "beyond_unit v =
     (case v of
        PyInt i \<Rightarrow> i < - 1 \<or> 1 < i
      | PyFloat f \<Rightarrow>
          (case f of
             Finite q \<Rightarrow> q < - 1 \<or> 1 < q
           | NegZero \<Rightarrow> False
           | PosInf \<Rightarrow> True
           | NegInf \<Rightarrow> True
           | NaN \<Rightarrow> False)
      | _ \<Rightarrow> False)"

text \<open>
  \<open>normalized b\<close>: the payload \<open>b\<close> ends with a line feed, and no carriage return stands before
  that line feed.
\<close>

definition normalized :: "bytes \<Rightarrow> bool" where
  "normalized b =
     (b \<noteq> [] \<and> last b = LF \<and> (if butlast b = [] then True else last (butlast b) \<noteq> CR))"

text \<open>
  \<open>off_centre s\<close>: the cached position is not \<open>(0, 0)\<close>, as \<^verbatim>\<open>exit_safely\<close> tests it.
  \<open>logout_response s\<close> is the line the session \<open>s\<close> reads next, which is the response to the
  logout command when \<open>s\<close> is the state in which the logout is sent.
\<close>

definition off_centre :: "MEMS_device \<Rightarrow> bool" where
  "off_centre s = (py_ne_zero (pos_x (position s)) \<or> py_ne_zero (pos_y (position s)))"

definition logout_response :: "MEMS_device \<Rightarrow> bytes" where
  "logout_response s = fst (ser_readline (ser s))"

text \<open>
  \<open>reply_at k s\<close> is what the exchange after \<open>k\<close> earlier reads of the session \<open>s\<close> reads, and
  \<open>line_at k s\<close> the line a \<^verbatim>\<open>readline\<close> reads there. \<open>steps_before_logout s\<close> counts the exchanges
  the exit sequence runs before the logout: one if the position is off centre, one if the high
  voltage is on. \<open>class_defaults\<close> are the class-level dictionaries as the class body declares them.
\<close>

definition reply_at :: "nat \<Rightarrow> MEMS_device \<Rightarrow> bytes" where
  "reply_at k s = (case drop k (rx (ser s)) of [] \<Rightarrow> [] | r # rs \<Rightarrow> take 250 r)"

definition line_at :: "nat \<Rightarrow> MEMS_device \<Rightarrow> bytes" where
  "line_at k s = (case drop k (rx (ser s)) of [] \<Rightarrow> [] | r # rs \<Rightarrow> first_line r)"

definition steps_before_logout :: "MEMS_device \<Rightarrow> nat" where
  "steps_before_logout s = (if off_centre s then 1 else 0) + (if is_HV_on s then 1 else 0)"

text \<open>
  In the exit sequence started in \<open>s\<close>: \<open>recentre_raises s\<close> says that the re-centre exchange
  takes place and its reply does not decode, \<open>HV_off_raises s\<close> the same of the disable exchange
  (which reads after the re-centre exchange, if that one took place), and \<open>logout_line s\<close> is the
  line read after the logout command when both steps have run.
\<close>

definition recentre_raises :: "MEMS_device \<Rightarrow> bool" where
  "recentre_raises s = (off_centre s \<and> \<not> utf8_valid (reply_at 0 s))"

definition HV_off_raises :: "MEMS_device \<Rightarrow> bool" where
  "HV_off_raises s =
     (is_HV_on s \<and> \<not> utf8_valid (reply_at (if off_centre s then 1 else 0) s))"

definition logout_line :: "MEMS_device \<Rightarrow> bytes" where
  "logout_line s = line_at (steps_before_logout s) s"

definition class_defaults :: class_attrs where
  "class_defaults =
     \<lparr>class_settings = \<lparr>Vbias = None, VdifferenceMax = None, HardwareFilterBW = None\<rparr>,
      class_position = \<lparr>pos_x = PyInt 0, pos_y = PyInt 0\<rparr>\<rparr>"

definition mock :: "bytes list \<Rightarrow> MEMS_device" where
  "mock replies =
     \<lparr>ser = \<lparr>port = ''/dev/ttyACM0'', written = [], rx = replies, is_open = True\<rparr>,
      is_HV_on = False,
      settings = \<lparr>Vbias = None, VdifferenceMax = None, HardwareFilterBW = None\<rparr>,
      position = \<lparr>pos_x = PyInt 0, pos_y = PyInt 0\<rparr>,
      printed = []\<rparr>"

section \<open>Text and formatting lemmas\<close>

lemma ascii_utf8_valid: "list_all is_ascii t \<Longrightarrow> utf8_valid t"
  by (induction t) (simp_all add: is_ascii_def byte_in_def)

lemma decode_ascii: "list_all is_ascii t \<Longrightarrow> decode t = Inr t"
  by (simp add: decode_def ascii_utf8_valid)

lemma decode_Inr_iff: "decode b = Inr t \<longleftrightarrow> utf8_valid b \<and> t = b"
  by (auto simp: decode_def)

lemma utf8_valid_ack: "utf8_valid ack"
  by (simp add: byte_in_def)

lemma decode_ack_iff: "decode b = Inr ack \<longleftrightarrow> b = ack"
  using utf8_valid_ack by (auto simp only: decode_def split: if_splits)

lemma digit_chars_plain:
  "list_all (\<lambda>c. is_ascii c \<and> c \<noteq> CR \<and> c \<noteq> LF) ''0123456789''"
  by (simp add: is_ascii_def)

lemma digit_char_facts:
  assumes "d < 10"
  shows "is_ascii (''0123456789'' ! d) \<and> ''0123456789'' ! d \<noteq> CR \<and> ''0123456789'' ! d \<noteq> LF"
proof -
  have "length ''0123456789'' = 10" by simp
  with assms digit_chars_plain show ?thesis
    unfolding list_all_length by metis
qed

lemma digits_nonempty: "digits n \<noteq> []"
  by (subst digits.simps) simp

lemma digits_ascii: "list_all is_ascii (digits n)"
proof (induction n rule: digits.induct)
  case (1 n)
  show ?case
  proof (cases "n < 10")
    case True
    then show ?thesis using digit_char_facts[of n] by (subst digits.simps) simp
  next
    case False
    with 1 have "list_all is_ascii (digits (n div 10))" by simp
    moreover have "is_ascii (''0123456789'' ! (n mod 10))"
      using digit_char_facts[of "n mod 10"] by simp
    ultimately show ?thesis using False by (subst digits.simps) simp
  qed
qed

lemma last_digits: "last (digits n) \<noteq> CR \<and> last (digits n) \<noteq> LF"
proof (cases "n < 10")
  case True
  then show ?thesis using digit_char_facts[of n] by (subst digits.simps, subst (2) digits.simps) simp
next
  case False
  then show ?thesis using digit_char_facts[of "n mod 10"]
    by (subst digits.simps, subst (2) digits.simps) simp
qed

lemma str_int_nonempty: "str_int i \<noteq> []"
  by (simp add: str_int_def digits_nonempty)

lemma str_int_ascii: "list_all is_ascii (str_int i)"
  by (simp add: str_int_def digits_ascii is_ascii_def)

lemma last_str_int: "last (str_int i) \<noteq> CR \<and> last (str_int i) \<noteq> LF"
  using last_digits by (simp add: str_int_def digits_nonempty)

lemma slice_last_last: "slice_last n t = u \<Longrightarrow> u \<noteq> [] \<Longrightarrow> last t = last u"
  by (cases "t = []") (auto simp: slice_last_def)

lemma format_cmd_plain:
  assumes "list_all is_ascii t" "t \<noteq> []" "last t \<noteq> CR" "last t \<noteq> LF"
  shows "format_cmd (PyStr t) = Inr (t @ [LF])"
proof -
  have a: "slice_last 2 t \<noteq> [CR, LF]" using slice_last_last[of 2 t "[CR, LF]"] assms by auto
  have b: "slice_last 2 t \<noteq> [LF, CR]" using slice_last_last[of 2 t "[LF, CR]"] assms by auto
  have c: "slice_last 1 t \<noteq> [CR]" using slice_last_last[of 1 t "[CR]"] assms by auto
  have d: "decode t = Inr t" using assms by (simp add: decode_ascii)
  show ?thesis
    unfolding format_cmd_def to_bytes_def bytes_ascii_def
    using assms a b c d by (simp add: Let_def)
qed

lemma format_cmd_token_int:
  assumes "list_all is_ascii tok"
  shows "format_cmd (PyStr (tok @ str_int n)) = Inr (tok @ str_int n @ [LF])"
  using format_cmd_plain[of "tok @ str_int n"] assms str_int_ascii[of n] str_int_nonempty[of n] last_str_int[of n]
  by simp

section \<open>The transport and the exchange\<close>

lemma ser_read_write: "ser_read n (ser_write c t) = (fst (ser_read n t), ser_write c (snd (ser_read n t)))"
  by (simp add: ser_read_def ser_write_def split: list.splits)

lemma ser_readline_write:
  "ser_readline (ser_write c t) = (fst (ser_readline t), ser_write c (snd (ser_readline t)))"
  by (simp add: ser_readline_def ser_write_def split: list.splits)

lemma ser_read_frame:
  "written (snd (ser_read n t)) = written t" "is_open (snd (ser_read n t)) = is_open t"
  "port (snd (ser_read n t)) = port t" "rx (snd (ser_read n t)) = tl (rx t)"
  by (simp_all add: ser_read_def split: list.splits)

lemma ser_readline_frame:
  "written (snd (ser_readline t)) = written t" "is_open (snd (ser_readline t)) = is_open t"
  "port (snd (ser_readline t)) = port t" "rx (snd (ser_readline t)) = tl (rx t)"
  by (simp_all add: ser_readline_def split: list.splits)

lemma ser_write_frame:
  "written (ser_write c t) = written t @ [c]" "is_open (ser_write c t) = is_open t"
  "port (ser_write c t) = port t" "rx (ser_write c t) = rx t"
  by (simp_all add: ser_write_def)

lemma ser_close_frame:
  "written (ser_close t) = written t" "is_open (ser_close t) = False"
  "port (ser_close t) = port t" "rx (ser_close t) = rx t"
  by (simp_all add: ser_close_def)

lemma print_line_frame:
  "ser (print_line l s) = ser s" "settings (print_line l s) = settings s"
  "is_HV_on (print_line l s) = is_HV_on s" "position (print_line l s) = position s"
  "printed (print_line l s) = printed s @ [l]"
  by (simp_all add: print_line_def)

text \<open>What an exchange does once the command is formatted.\<close>

lemma send_cmd_formatted:
  assumes "format_cmd cmd = Inr c"
  shows "fst (send_cmd cmd n pr pc s) = decode (fst (ser_read n (ser s)))"
    and "written (ser (snd (send_cmd cmd n pr pc s))) = written (ser s) @ [c]"
    and "rx (ser (snd (send_cmd cmd n pr pc s))) = tl (rx (ser s))"
  using assms
  by (simp_all add: send_cmd_def Let_def ser_read_write ser_read_frame ser_write_frame
      print_line_frame split: sum.splits)

lemma send_cmd_frame:
  "settings (snd (send_cmd cmd n pr pc s)) = settings s"
  "is_HV_on (snd (send_cmd cmd n pr pc s)) = is_HV_on s"
  "position (snd (send_cmd cmd n pr pc s)) = position s"
  "is_open (ser (snd (send_cmd cmd n pr pc s))) = is_open (ser s)"
  "port (ser (snd (send_cmd cmd n pr pc s))) = port (ser s)"
  by (simp_all add: send_cmd_def Let_def ser_read_write ser_read_frame ser_write_frame
      print_line_frame split: sum.splits)

lemma send_cmd_unformatted:
  "format_cmd cmd = Inl e \<Longrightarrow> send_cmd cmd n pr pc s = (Inl e, s)"
  by (simp add: send_cmd_def)

text \<open>The shape shared by the three setters, \<^verbatim>\<open>HV_on\<close> and \<^verbatim>\<open>HV_off\<close>: exchange, then commit on the
  acknowledgement.\<close>

lemma commit_cases:
  assumes "format_cmd cmd = Inr c"
  shows "(case send_cmd cmd n pr pc s1 of
            (Inl e, s2) \<Rightarrow> (Inl e, s2)
          | (Inr resp, s2) \<Rightarrow> if resp = ack then (Inr True, upd s2) else (Inr False, s2)) =
         (if \<not> utf8_valid (fst (ser_read n (ser s1))) then (Inl UnicodeDecodeError, snd (send_cmd cmd n pr pc s1))
          else if fst (ser_read n (ser s1)) = ack then (Inr True, upd (snd (send_cmd cmd n pr pc s1)))
          else (Inr False, snd (send_cmd cmd n pr pc s1)))"
proof -
  obtain a s2 where eq: "send_cmd cmd n pr pc s1 = (a, s2)" by fastforce
  have a: "a = decode (fst (ser_read n (ser s1)))"
    using send_cmd_formatted(1)[OF assms, of n pr pc s1] eq by simp
  show ?thesis
  proof (cases "utf8_valid (fst (ser_read n (ser s1)))")
    case True
    then have "a = Inr (fst (ser_read n (ser s1)))" using a by (simp add: decode_def)
    then show ?thesis using True eq by simp
  next
    case False
    then have "a = Inl UnicodeDecodeError" using a by (simp add: decode_def)
    then show ?thesis using False eq by simp
  qed
qed

section \<open>Command normalization\<close>

text \<open>
  Claim C8. The normalization of the command exchange maps the text \<^verbatim>\<open>"MTI+VB 10\r\n"\<close> to the
  bytes \<^verbatim>\<open>"MTI+VB 10\n"\<close>, and the text \<^verbatim>\<open>"MTI+VB 10"\<close> to the same bytes; so it does for the
  pair in the other order (LF CR) and for byte-string inputs.
\<close>

theorem format_cmd_examples:
  "format_cmd (PyStr (''MTI+VB 10'' @ [CR, LF])) = Inr (''MTI+VB 10'' @ [LF])
   \<and> format_cmd (PyStr ''MTI+VB 10'') = Inr (''MTI+VB 10'' @ [LF])
   \<and> format_cmd (PyStr (''MTI+VB 10'' @ [LF, CR])) = Inr (''MTI+VB 10'' @ [LF])
   \<and> format_cmd (PyBytes (''MTI+VB 10'' @ [CR, LF])) = Inr (''MTI+VB 10'' @ [LF])
   \<and> format_cmd (PyBytes ''MTI+VB 10'') = Inr (''MTI+VB 10'' @ [LF])"
  by (simp add: format_cmd_def to_bytes_def bytes_ascii_def decode_def is_ascii_def byte_in_def
      slice_last_def slice_but_last_def)

theorem format_cmd_examples_witness:
  "\<exists>c. format_cmd (PyStr ''MTI+VB 10'') = Inr c \<and> last c = LF \<and> length c = 10"
  using format_cmd_examples by simp

text \<open>
  Claim C10. The normalization is not total: on an empty payload, and on a payload that is
  only a line-ending pair (in either order), the stripping leaves no character, the test of the
  last character raises \<^verbatim>\<open>IndexError\<close>, and \<^verbatim>\<open>_send_cmd\<close> ends with that exception: it
  writes nothing, reads nothing and returns no response.
\<close>

theorem send_cmd_empty_payload_raises:
  "format_cmd (PyStr []) = Inl IndexError
   \<and> format_cmd (PyBytes []) = Inl IndexError
   \<and> format_cmd (PyStr [CR, LF]) = Inl IndexError
   \<and> format_cmd (PyStr [LF, CR]) = Inl IndexError
   \<and> format_cmd (PyBytes [CR, LF]) = Inl IndexError
   \<and> format_cmd (PyBytes [LF, CR]) = Inl IndexError
   \<and> send_cmd (PyStr []) n pr pc s = (Inl IndexError, s)
   \<and> send_cmd (PyBytes []) n pr pc s = (Inl IndexError, s)
   \<and> send_cmd (PyStr [CR, LF]) n pr pc s = (Inl IndexError, s)
   \<and> send_cmd (PyStr [LF, CR]) n pr pc s = (Inl IndexError, s)
   \<and> send_cmd (PyBytes [CR, LF]) n pr pc s = (Inl IndexError, s)
   \<and> send_cmd (PyBytes [LF, CR]) n pr pc s = (Inl IndexError, s)"
  by (simp add: send_cmd_def format_cmd_def to_bytes_def bytes_ascii_def decode_def is_ascii_def
      byte_in_def slice_last_def slice_but_last_def)

theorem send_cmd_empty_payload_raises_witness:
  "fst (send_cmd (PyStr [CR, LF]) 250 True True
         \<lparr>ser = \<lparr>port = ''p'', written = [], rx = [ack], is_open = True\<rparr>, is_HV_on = False,
          settings = \<lparr>Vbias = None, VdifferenceMax = None, HardwareFilterBW = None\<rparr>,
          position = \<lparr>pos_x = PyInt 0, pos_y = PyInt 0\<rparr>, printed = []\<rparr>) = Inl IndexError"
  using send_cmd_empty_payload_raises[of 250 True True] by simp

section \<open>What each setter does\<close>

lemma if_bool_Inr: "(if b then Inr True else Inr False) = Inr b"
  by simp

lemma ser_if_print: "ser (if b then print_line l s else s) = ser s"
  by (simp add: print_line_frame)

lemma if_print_frame:
  "settings (if b then print_line l s else s) = settings s"
  "is_HV_on (if b then print_line l s else s) = is_HV_on s"
  "position (if b then print_line l s else s) = position s"
  by (simp_all add: print_line_frame)

lemma set_Vbias_sent:
  assumes "\<not> is_HV_on s" "0 \<le> n" "n \<le> 100"
  shows "set_Vbias (PyInt n) verbose s =
     (if \<not> utf8_valid (fst (ser_read 250 (ser s)))
        then (Inl UnicodeDecodeError,
              snd (send_cmd (PyStr (''MTI+VB '' @ str_int n)) 250 verbose False
                  (if verbose then print_line (''Setting Vbias to '' @ str_int n) s else s)))
      else if fst (ser_read 250 (ser s)) = ack
        then (Inr True,
              (snd (send_cmd (PyStr (''MTI+VB '' @ str_int n)) 250 verbose False
                  (if verbose then print_line (''Setting Vbias to '' @ str_int n) s else s)))
              \<lparr>settings := (settings s)\<lparr>Vbias := Some n\<rparr>\<rparr>)
      else (Inr False,
            snd (send_cmd (PyStr (''MTI+VB '' @ str_int n)) 250 verbose False
                  (if verbose then print_line (''Setting Vbias to '' @ str_int n) s else s))))"
proof -
  have fmt: "format_cmd (PyStr (''MTI+VB '' @ str_int n)) = Inr (''MTI+VB '' @ str_int n @ [LF])"
    using format_cmd_token_int[of "''MTI+VB ''" n] by (simp add: is_ascii_def)
  have "set_Vbias (PyInt n) verbose s =
     (case send_cmd (PyStr (''MTI+VB '' @ str_int n)) 250 verbose False
             (if verbose then print_line (''Setting Vbias to '' @ str_int n) s else s) of
        (Inl e, s2) \<Rightarrow> (Inl e, s2)
      | (Inr resp, s2) \<Rightarrow>
          if resp = ack then (Inr True, s2\<lparr>settings := (settings s2)\<lparr>Vbias := Some n\<rparr>\<rparr>)
          else (Inr False, s2))"
    using assms unfolding set_Vbias_def Let_def by simp
  then show ?thesis
    by (simp only: commit_cases[OF fmt] ser_if_print send_cmd_frame print_line_frame
        if_distrib[of settings] if_cancel)
qed

lemma set_Vbias_refused:
  "is_HV_on s \<Longrightarrow> set_Vbias v verbose s =
     (Inr False, print_line ''Error: cannot change parameters while mirror is on'' s)"
  by (simp add: set_Vbias_def)

lemma set_Vbias_invalid:
  "\<not> int_in_range 0 100 v \<Longrightarrow>
   fst (set_Vbias v verbose s) = Inr False \<and> settings (snd (set_Vbias v verbose s)) = settings s
   \<and> ser (snd (set_Vbias v verbose s)) = ser s"
  by (auto simp: set_Vbias_def int_in_range_def print_line_frame split: pyval.splits)

lemma set_Vbias_outcome:
  assumes "\<not> is_HV_on s" "int_in_range 0 100 v"
  shows "fst (set_Vbias v verbose s) =
           (if \<not> utf8_valid (reply s) then Inl UnicodeDecodeError else Inr (reply s = ack))"
    and "settings (snd (set_Vbias v verbose s)) =
           (if reply s = ack then (settings s)\<lparr>Vbias := Some (case v of PyInt n \<Rightarrow> n)\<rparr> else settings s)"
    and "written (ser (snd (set_Vbias v verbose s))) =
           written (ser s) @ [''MTI+VB '' @ str_int (case v of PyInt n \<Rightarrow> n) @ [LF]]"
    and "rx (ser (snd (set_Vbias v verbose s))) = tl (rx (ser s))"
    and "is_HV_on (snd (set_Vbias v verbose s)) = is_HV_on s"
    and "position (snd (set_Vbias v verbose s)) = position s"
    and "is_open (ser (snd (set_Vbias v verbose s))) = is_open (ser s)"
proof -
  obtain n where v: "v = PyInt n" and n: "0 \<le> n" "n \<le> 100"
    using assms(2) by (auto simp: int_in_range_def split: pyval.splits)
  have fmt: "format_cmd (PyStr (''MTI+VB '' @ str_int n)) = Inr (''MTI+VB '' @ str_int n @ [LF])"
    using format_cmd_token_int[of "''MTI+VB ''" n] by (simp add: is_ascii_def)
  note sent = set_Vbias_sent[OF assms(1) n, of verbose]
  note fr = send_cmd_frame[of "PyStr (''MTI+VB '' @ str_int n)" 250 verbose False
      "if verbose then print_line (''Setting Vbias to '' @ str_int n) s else s"]
  note fm = send_cmd_formatted[OF fmt, of 250 verbose False
      "if verbose then print_line (''Setting Vbias to '' @ str_int n) s else s"]
  have ack_ok: "utf8_valid ack" by (rule utf8_valid_ack)
  show "fst (set_Vbias v verbose s) =
           (if \<not> utf8_valid (reply s) then Inl UnicodeDecodeError else Inr (reply s = ack))"
    unfolding v sent reply_def by (simp only: if_distrib[of fst] fst_conv if_bool_Inr)
  show "settings (snd (set_Vbias v verbose s)) =
           (if reply s = ack then (settings s)\<lparr>Vbias := Some (case v of PyInt n \<Rightarrow> n)\<rparr> else settings s)"
  proof (cases "reply s = ack")
    case True
    then show ?thesis using ack_ok unfolding v sent reply_def by (simp only: if_True if_False snd_conv simp_thms pyval.case) simp
  next
    case False
    then show ?thesis unfolding v sent reply_def
      by (cases "utf8_valid (fst (ser_read 250 (ser s)))")
         (simp_all only: if_True if_False snd_conv simp_thms fr if_print_frame)
  qed
  have frame: "P (snd (set_Vbias v verbose s))"
    if "P (snd (send_cmd (PyStr (''MTI+VB '' @ str_int n)) 250 verbose False
                  (if verbose then print_line (''Setting Vbias to '' @ str_int n) s else s)))"
       "\<And>x st. P (st\<lparr>settings := x\<rparr>) = P st" for P :: "MEMS_device \<Rightarrow> bool"
    unfolding v sent using that
    by (cases "utf8_valid (fst (ser_read 250 (ser s)))"; cases "fst (ser_read 250 (ser s)) = ack")
       (simp_all only: if_True if_False snd_conv simp_thms)
  show "written (ser (snd (set_Vbias v verbose s))) =
           written (ser s) @ [''MTI+VB '' @ str_int (case v of PyInt n \<Rightarrow> n) @ [LF]]"
    by (rule frame[where P="\<lambda>st. written (ser st) = written (ser s) @ [''MTI+VB '' @ str_int (case v of PyInt n \<Rightarrow> n) @ [LF]]"])
       (simp only: fm v pyval.case ser_if_print, simp)
  show "rx (ser (snd (set_Vbias v verbose s))) = tl (rx (ser s))"
    by (rule frame[where P="\<lambda>st. rx (ser st) = tl (rx (ser s))"])
       (simp only: fm ser_if_print, simp)
  show "is_HV_on (snd (set_Vbias v verbose s)) = is_HV_on s"
    by (rule frame[where P="\<lambda>st. is_HV_on st = is_HV_on s"])
       (simp only: fr if_print_frame, simp)
  show "position (snd (set_Vbias v verbose s)) = position s"
    by (rule frame[where P="\<lambda>st. position st = position s"])
       (simp only: fr if_print_frame, simp)
  show "is_open (ser (snd (set_Vbias v verbose s))) = is_open (ser s)"
    by (rule frame[where P="\<lambda>st. is_open (ser st) = is_open (ser s)"])
       (simp only: fr ser_if_print, simp)
qed

lemma set_VdifferenceMax_sent:
  assumes "\<not> is_HV_on s" "0 \<le> n" "n \<le> 200"
  shows "set_VdifferenceMax (PyInt n) verbose safety s =
     (if \<not> utf8_valid (fst (ser_read 250 (ser s)))
        then (Inl UnicodeDecodeError,
              snd (send_cmd (PyStr (''MTI+VD '' @ str_int n)) 250 verbose False
                  (if verbose then print_line (''Setting VdifferenceMax to '' @ str_int n) s else s)))
      else if fst (ser_read 250 (ser s)) = ack
        then (Inr True,
              (snd (send_cmd (PyStr (''MTI+VD '' @ str_int n)) 250 verbose False
                  (if verbose then print_line (''Setting VdifferenceMax to '' @ str_int n) s else s)))
              \<lparr>settings := (settings s)\<lparr>VdifferenceMax := Some n\<rparr>\<rparr>)
      else (Inr False,
            snd (send_cmd (PyStr (''MTI+VD '' @ str_int n)) 250 verbose False
                  (if verbose then print_line (''Setting VdifferenceMax to '' @ str_int n) s else s))))"
proof -
  have fmt: "format_cmd (PyStr (''MTI+VD '' @ str_int n)) = Inr (''MTI+VD '' @ str_int n @ [LF])"
    using format_cmd_token_int[of "''MTI+VD ''" n] by (simp add: is_ascii_def)
  have "set_VdifferenceMax (PyInt n) verbose safety s =
     (case send_cmd (PyStr (''MTI+VD '' @ str_int n)) 250 verbose False
             (if verbose then print_line (''Setting VdifferenceMax to '' @ str_int n) s else s) of
        (Inl e, s2) \<Rightarrow> (Inl e, s2)
      | (Inr resp, s2) \<Rightarrow>
          if resp = ack then (Inr True, s2\<lparr>settings := (settings s2)\<lparr>VdifferenceMax := Some n\<rparr>\<rparr>)
          else (Inr False, s2))"
    using assms unfolding set_VdifferenceMax_def Let_def by simp
  then show ?thesis
    by (simp only: commit_cases[OF fmt] ser_if_print send_cmd_frame print_line_frame
        if_distrib[of settings] if_cancel)
qed

lemma set_VdifferenceMax_refused:
  "is_HV_on s \<Longrightarrow> set_VdifferenceMax v verbose safety s =
     (Inr False, print_line ''Error: cannot change parameters while mirror is on'' s)"
  by (simp add: set_VdifferenceMax_def)

lemma set_VdifferenceMax_invalid:
  "\<not> int_in_range 0 200 v \<Longrightarrow>
   fst (set_VdifferenceMax v verbose safety s) = Inr False \<and> settings (snd (set_VdifferenceMax v verbose safety s)) = settings s
   \<and> ser (snd (set_VdifferenceMax v verbose safety s)) = ser s"
  by (auto simp: set_VdifferenceMax_def int_in_range_def print_line_frame split: pyval.splits)

lemma set_VdifferenceMax_outcome:
  assumes "\<not> is_HV_on s" "int_in_range 0 200 v"
  shows "fst (set_VdifferenceMax v verbose safety s) =
           (if \<not> utf8_valid (reply s) then Inl UnicodeDecodeError else Inr (reply s = ack))"
    and "settings (snd (set_VdifferenceMax v verbose safety s)) =
           (if reply s = ack then (settings s)\<lparr>VdifferenceMax := Some (case v of PyInt n \<Rightarrow> n)\<rparr> else settings s)"
    and "written (ser (snd (set_VdifferenceMax v verbose safety s))) =
           written (ser s) @ [''MTI+VD '' @ str_int (case v of PyInt n \<Rightarrow> n) @ [LF]]"
    and "rx (ser (snd (set_VdifferenceMax v verbose safety s))) = tl (rx (ser s))"
    and "is_HV_on (snd (set_VdifferenceMax v verbose safety s)) = is_HV_on s"
    and "position (snd (set_VdifferenceMax v verbose safety s)) = position s"
    and "is_open (ser (snd (set_VdifferenceMax v verbose safety s))) = is_open (ser s)"
proof -
  obtain n where v: "v = PyInt n" and n: "0 \<le> n" "n \<le> 200"
    using assms(2) by (auto simp: int_in_range_def split: pyval.splits)
  have fmt: "format_cmd (PyStr (''MTI+VD '' @ str_int n)) = Inr (''MTI+VD '' @ str_int n @ [LF])"
    using format_cmd_token_int[of "''MTI+VD ''" n] by (simp add: is_ascii_def)
  note sent = set_VdifferenceMax_sent[OF assms(1) n, of verbose]
  note fr = send_cmd_frame[of "PyStr (''MTI+VD '' @ str_int n)" 250 verbose False
      "if verbose then print_line (''Setting VdifferenceMax to '' @ str_int n) s else s"]
  note fm = send_cmd_formatted[OF fmt, of 250 verbose False
      "if verbose then print_line (''Setting VdifferenceMax to '' @ str_int n) s else s"]
  have ack_ok: "utf8_valid ack" by (rule utf8_valid_ack)
  show "fst (set_VdifferenceMax v verbose safety s) =
           (if \<not> utf8_valid (reply s) then Inl UnicodeDecodeError else Inr (reply s = ack))"
    unfolding v sent reply_def by (simp only: if_distrib[of fst] fst_conv if_bool_Inr)
  show "settings (snd (set_VdifferenceMax v verbose safety s)) =
           (if reply s = ack then (settings s)\<lparr>VdifferenceMax := Some (case v of PyInt n \<Rightarrow> n)\<rparr> else settings s)"
  proof (cases "reply s = ack")
    case True
    then show ?thesis using ack_ok unfolding v sent reply_def by (simp only: if_True if_False snd_conv simp_thms pyval.case) simp
  next
    case False
    then show ?thesis unfolding v sent reply_def
      by (cases "utf8_valid (fst (ser_read 250 (ser s)))")
         (simp_all only: if_True if_False snd_conv simp_thms fr if_print_frame)
  qed
  have frame: "P (snd (set_VdifferenceMax v verbose safety s))"
    if "P (snd (send_cmd (PyStr (''MTI+VD '' @ str_int n)) 250 verbose False
                  (if verbose then print_line (''Setting VdifferenceMax to '' @ str_int n) s else s)))"
       "\<And>x st. P (st\<lparr>settings := x\<rparr>) = P st" for P :: "MEMS_device \<Rightarrow> bool"
    unfolding v sent using that
    by (cases "utf8_valid (fst (ser_read 250 (ser s)))"; cases "fst (ser_read 250 (ser s)) = ack")
       (simp_all only: if_True if_False snd_conv simp_thms)
  show "written (ser (snd (set_VdifferenceMax v verbose safety s))) =
           written (ser s) @ [''MTI+VD '' @ str_int (case v of PyInt n \<Rightarrow> n) @ [LF]]"
    by (rule frame[where P="\<lambda>st. written (ser st) = written (ser s) @ [''MTI+VD '' @ str_int (case v of PyInt n \<Rightarrow> n) @ [LF]]"])
       (simp only: fm v pyval.case ser_if_print, simp)
  show "rx (ser (snd (set_VdifferenceMax v verbose safety s))) = tl (rx (ser s))"
    by (rule frame[where P="\<lambda>st. rx (ser st) = tl (rx (ser s))"])
       (simp only: fm ser_if_print, simp)
  show "is_HV_on (snd (set_VdifferenceMax v verbose safety s)) = is_HV_on s"
    by (rule frame[where P="\<lambda>st. is_HV_on st = is_HV_on s"])
       (simp only: fr if_print_frame, simp)
  show "position (snd (set_VdifferenceMax v verbose safety s)) = position s"
    by (rule frame[where P="\<lambda>st. position st = position s"])
       (simp only: fr if_print_frame, simp)
  show "is_open (ser (snd (set_VdifferenceMax v verbose safety s))) = is_open (ser s)"
    by (rule frame[where P="\<lambda>st. is_open (ser st) = is_open (ser s)"])
       (simp only: fr ser_if_print, simp)
qed

lemma set_HardwareFilterBW_sent:
  assumes "\<not> is_HV_on s" "50 \<le> n" "n \<le> 15000"
  shows "set_HardwareFilterBW (PyInt n) verbose s =
     (if \<not> utf8_valid (fst (ser_read 250 (ser s)))
        then (Inl UnicodeDecodeError,
              snd (send_cmd (PyStr (''MTI+BW '' @ str_int n)) 250 verbose False
                  (if verbose then print_line (''Setting HardwareFilterBW to '' @ str_int n) s else s)))
      else if fst (ser_read 250 (ser s)) = ack
        then (Inr True,
              (snd (send_cmd (PyStr (''MTI+BW '' @ str_int n)) 250 verbose False
                  (if verbose then print_line (''Setting HardwareFilterBW to '' @ str_int n) s else s)))
              \<lparr>settings := (settings s)\<lparr>HardwareFilterBW := Some n\<rparr>\<rparr>)
      else (Inr False,
            snd (send_cmd (PyStr (''MTI+BW '' @ str_int n)) 250 verbose False
                  (if verbose then print_line (''Setting HardwareFilterBW to '' @ str_int n) s else s))))"
proof -
  have fmt: "format_cmd (PyStr (''MTI+BW '' @ str_int n)) = Inr (''MTI+BW '' @ str_int n @ [LF])"
    using format_cmd_token_int[of "''MTI+BW ''" n] by (simp add: is_ascii_def)
  have "set_HardwareFilterBW (PyInt n) verbose s =
     (case send_cmd (PyStr (''MTI+BW '' @ str_int n)) 250 verbose False
             (if verbose then print_line (''Setting HardwareFilterBW to '' @ str_int n) s else s) of
        (Inl e, s2) \<Rightarrow> (Inl e, s2)
      | (Inr resp, s2) \<Rightarrow>
          if resp = ack then (Inr True, s2\<lparr>settings := (settings s2)\<lparr>HardwareFilterBW := Some n\<rparr>\<rparr>)
          else (Inr False, s2))"
    using assms unfolding set_HardwareFilterBW_def Let_def by simp
  then show ?thesis
    by (simp only: commit_cases[OF fmt] ser_if_print send_cmd_frame print_line_frame
        if_distrib[of settings] if_cancel)
qed

lemma set_HardwareFilterBW_refused:
  "is_HV_on s \<Longrightarrow> set_HardwareFilterBW v verbose s =
     (Inr False, print_line ''Error: cannot change parameters while mirror is on'' s)"
  by (simp add: set_HardwareFilterBW_def)

lemma set_HardwareFilterBW_invalid:
  "\<not> int_in_range 50 15000 v \<Longrightarrow>
   fst (set_HardwareFilterBW v verbose s) = Inr False \<and> settings (snd (set_HardwareFilterBW v verbose s)) = settings s
   \<and> ser (snd (set_HardwareFilterBW v verbose s)) = ser s"
  by (auto simp: set_HardwareFilterBW_def int_in_range_def print_line_frame split: pyval.splits)

lemma set_HardwareFilterBW_outcome:
  assumes "\<not> is_HV_on s" "int_in_range 50 15000 v"
  shows "fst (set_HardwareFilterBW v verbose s) =
           (if \<not> utf8_valid (reply s) then Inl UnicodeDecodeError else Inr (reply s = ack))"
    and "settings (snd (set_HardwareFilterBW v verbose s)) =
           (if reply s = ack then (settings s)\<lparr>HardwareFilterBW := Some (case v of PyInt n \<Rightarrow> n)\<rparr> else settings s)"
    and "written (ser (snd (set_HardwareFilterBW v verbose s))) =
           written (ser s) @ [''MTI+BW '' @ str_int (case v of PyInt n \<Rightarrow> n) @ [LF]]"
    and "rx (ser (snd (set_HardwareFilterBW v verbose s))) = tl (rx (ser s))"
    and "is_HV_on (snd (set_HardwareFilterBW v verbose s)) = is_HV_on s"
    and "position (snd (set_HardwareFilterBW v verbose s)) = position s"
    and "is_open (ser (snd (set_HardwareFilterBW v verbose s))) = is_open (ser s)"
proof -
  obtain n where v: "v = PyInt n" and n: "50 \<le> n" "n \<le> 15000"
    using assms(2) by (auto simp: int_in_range_def split: pyval.splits)
  have fmt: "format_cmd (PyStr (''MTI+BW '' @ str_int n)) = Inr (''MTI+BW '' @ str_int n @ [LF])"
    using format_cmd_token_int[of "''MTI+BW ''" n] by (simp add: is_ascii_def)
  note sent = set_HardwareFilterBW_sent[OF assms(1) n, of verbose]
  note fr = send_cmd_frame[of "PyStr (''MTI+BW '' @ str_int n)" 250 verbose False
      "if verbose then print_line (''Setting HardwareFilterBW to '' @ str_int n) s else s"]
  note fm = send_cmd_formatted[OF fmt, of 250 verbose False
      "if verbose then print_line (''Setting HardwareFilterBW to '' @ str_int n) s else s"]
  have ack_ok: "utf8_valid ack" by (rule utf8_valid_ack)
  show "fst (set_HardwareFilterBW v verbose s) =
           (if \<not> utf8_valid (reply s) then Inl UnicodeDecodeError else Inr (reply s = ack))"
    unfolding v sent reply_def by (simp only: if_distrib[of fst] fst_conv if_bool_Inr)
  show "settings (snd (set_HardwareFilterBW v verbose s)) =
           (if reply s = ack then (settings s)\<lparr>HardwareFilterBW := Some (case v of PyInt n \<Rightarrow> n)\<rparr> else settings s)"
  proof (cases "reply s = ack")
    case True
    then show ?thesis using ack_ok unfolding v sent reply_def by (simp only: if_True if_False snd_conv simp_thms pyval.case) simp
  next
    case False
    then show ?thesis unfolding v sent reply_def
      by (cases "utf8_valid (fst (ser_read 250 (ser s)))")
         (simp_all only: if_True if_False snd_conv simp_thms fr if_print_frame)
  qed
  have frame: "P (snd (set_HardwareFilterBW v verbose s))"
    if "P (snd (send_cmd (PyStr (''MTI+BW '' @ str_int n)) 250 verbose False
                  (if verbose then print_line (''Setting HardwareFilterBW to '' @ str_int n) s else s)))"
       "\<And>x st. P (st\<lparr>settings := x\<rparr>) = P st" for P :: "MEMS_device \<Rightarrow> bool"
    unfolding v sent using that
    by (cases "utf8_valid (fst (ser_read 250 (ser s)))"; cases "fst (ser_read 250 (ser s)) = ack")
       (simp_all only: if_True if_False snd_conv simp_thms)
  show "written (ser (snd (set_HardwareFilterBW v verbose s))) =
           written (ser s) @ [''MTI+BW '' @ str_int (case v of PyInt n \<Rightarrow> n) @ [LF]]"
    by (rule frame[where P="\<lambda>st. written (ser st) = written (ser s) @ [''MTI+BW '' @ str_int (case v of PyInt n \<Rightarrow> n) @ [LF]]"])
       (simp only: fm v pyval.case ser_if_print, simp)
  show "rx (ser (snd (set_HardwareFilterBW v verbose s))) = tl (rx (ser s))"
    by (rule frame[where P="\<lambda>st. rx (ser st) = tl (rx (ser s))"])
       (simp only: fm ser_if_print, simp)
  show "is_HV_on (snd (set_HardwareFilterBW v verbose s)) = is_HV_on s"
    by (rule frame[where P="\<lambda>st. is_HV_on st = is_HV_on s"])
       (simp only: fr if_print_frame, simp)
  show "position (snd (set_HardwareFilterBW v verbose s)) = position s"
    by (rule frame[where P="\<lambda>st. position st = position s"])
       (simp only: fr if_print_frame, simp)
  show "is_open (ser (snd (set_HardwareFilterBW v verbose s))) = is_open (ser s)"
    by (rule frame[where P="\<lambda>st. is_open (ser st) = is_open (ser s)"])
       (simp only: fr ser_if_print, simp)
qed

lemmas model_defs =
  mock_def reply_def int_in_range_def set_Vbias_def set_VdifferenceMax_def set_HardwareFilterBW_def
  send_cmd_def format_cmd_def to_bytes_def bytes_ascii_def decode_def is_ascii_def byte_in_def
  slice_last_def slice_but_last_def str_int_def digits.simps ser_read_def ser_write_def
  print_line_def Let_def

section \<open>The parameter setters\<close>

text \<open>
  Claim C1. While the high voltage is on, each of \<^verbatim>\<open>set_Vbias\<close>, \<^verbatim>\<open>set_VdifferenceMax\<close> and
  \<^verbatim>\<open>set_HardwareFilterBW\<close> returns \<^verbatim>\<open>False\<close> for every argument, leaves the transport as it was
  (nothing written, nothing read) and leaves the cached settings as they were.
\<close>

theorem setters_refused_while_HV_on:
  assumes "is_HV_on s"
  shows "(fst (set_Vbias v verbose s) = Inr False
          \<and> ser (snd (set_Vbias v verbose s)) = ser s
          \<and> settings (snd (set_Vbias v verbose s)) = settings s)
       \<and> (fst (set_VdifferenceMax v verbose safety s) = Inr False
          \<and> ser (snd (set_VdifferenceMax v verbose safety s)) = ser s
          \<and> settings (snd (set_VdifferenceMax v verbose safety s)) = settings s)
       \<and> (fst (set_HardwareFilterBW v verbose s) = Inr False
          \<and> ser (snd (set_HardwareFilterBW v verbose s)) = ser s
          \<and> settings (snd (set_HardwareFilterBW v verbose s)) = settings s)"
  using assms
  by (simp add: set_Vbias_refused set_VdifferenceMax_refused set_HardwareFilterBW_refused
      print_line_frame)

theorem setters_refused_while_HV_on_witness:
  "is_HV_on ((mock [ack])\<lparr>is_HV_on := True\<rparr>)
   \<and> fst (set_Vbias (PyInt 10) True ((mock [ack])\<lparr>is_HV_on := True\<rparr>)) = Inr False
   \<and> written (ser (snd (set_Vbias (PyInt 10) True ((mock [ack])\<lparr>is_HV_on := True\<rparr>)))) = []
   \<and> Vbias (settings (snd (set_Vbias (PyInt 10) True ((mock [ack])\<lparr>is_HV_on := True\<rparr>)))) = None"
  using setters_refused_while_HV_on[of "(mock [ack])\<lparr>is_HV_on := True\<rparr>" "PyInt 10" True]
  by (simp add: mock_def)

lemma set_Vbias_commit:
  shows "\<not> is_HV_on s \<Longrightarrow> int_in_range 0 100 (PyInt n) \<Longrightarrow> reply s = ack \<Longrightarrow>
           fst (set_Vbias (PyInt n) verbose s) = Inr True
           \<and> settings (snd (set_Vbias (PyInt n) verbose s)) = (settings s)\<lparr>Vbias := Some n\<rparr>"
    and "\<not> int_in_range 0 100 v \<Longrightarrow>
           fst (set_Vbias v verbose s) = Inr False
           \<and> settings (snd (set_Vbias v verbose s)) = settings s"
    and "reply s \<noteq> ack \<Longrightarrow> settings (snd (set_Vbias v verbose s)) = settings s"
    and "reply s \<noteq> ack \<Longrightarrow> utf8_valid (reply s) \<Longrightarrow> fst (set_Vbias v verbose s) = Inr False"
    and "\<not> is_HV_on s \<Longrightarrow> int_in_range 0 100 v \<Longrightarrow> \<not> utf8_valid (reply s) \<Longrightarrow>
           fst (set_Vbias v verbose s) = Inl UnicodeDecodeError"
proof -
  show "\<not> is_HV_on s \<Longrightarrow> int_in_range 0 100 (PyInt n) \<Longrightarrow> reply s = ack \<Longrightarrow>
           fst (set_Vbias (PyInt n) verbose s) = Inr True
           \<and> settings (snd (set_Vbias (PyInt n) verbose s)) = (settings s)\<lparr>Vbias := Some n\<rparr>"
    using utf8_valid_ack by (simp add: set_Vbias_outcome)
  show "\<not> int_in_range 0 100 v \<Longrightarrow>
           fst (set_Vbias v verbose s) = Inr False
           \<and> settings (snd (set_Vbias v verbose s)) = settings s"
    by (simp add: set_Vbias_invalid)
  show "reply s \<noteq> ack \<Longrightarrow> settings (snd (set_Vbias v verbose s)) = settings s"
    by (cases "is_HV_on s"; cases "int_in_range 0 100 v")
       (simp_all add: set_Vbias_refused set_Vbias_invalid set_Vbias_outcome print_line_frame)
  show "reply s \<noteq> ack \<Longrightarrow> utf8_valid (reply s) \<Longrightarrow> fst (set_Vbias v verbose s) = Inr False"
    by (cases "is_HV_on s"; cases "int_in_range 0 100 v")
       (simp_all add: set_Vbias_refused set_Vbias_invalid set_Vbias_outcome)
  show "\<not> is_HV_on s \<Longrightarrow> int_in_range 0 100 v \<Longrightarrow> \<not> utf8_valid (reply s) \<Longrightarrow>
           fst (set_Vbias v verbose s) = Inl UnicodeDecodeError"
    by (simp add: set_Vbias_outcome)
qed

lemma set_VdifferenceMax_commit:
  shows "\<not> is_HV_on s \<Longrightarrow> int_in_range 0 200 (PyInt n) \<Longrightarrow> reply s = ack \<Longrightarrow>
           fst (set_VdifferenceMax (PyInt n) verbose safety s) = Inr True
           \<and> settings (snd (set_VdifferenceMax (PyInt n) verbose safety s)) = (settings s)\<lparr>VdifferenceMax := Some n\<rparr>"
    and "\<not> int_in_range 0 200 v \<Longrightarrow>
           fst (set_VdifferenceMax v verbose safety s) = Inr False
           \<and> settings (snd (set_VdifferenceMax v verbose safety s)) = settings s"
    and "reply s \<noteq> ack \<Longrightarrow> settings (snd (set_VdifferenceMax v verbose safety s)) = settings s"
    and "reply s \<noteq> ack \<Longrightarrow> utf8_valid (reply s) \<Longrightarrow> fst (set_VdifferenceMax v verbose safety s) = Inr False"
    and "\<not> is_HV_on s \<Longrightarrow> int_in_range 0 200 v \<Longrightarrow> \<not> utf8_valid (reply s) \<Longrightarrow>
           fst (set_VdifferenceMax v verbose safety s) = Inl UnicodeDecodeError"
proof -
  show "\<not> is_HV_on s \<Longrightarrow> int_in_range 0 200 (PyInt n) \<Longrightarrow> reply s = ack \<Longrightarrow>
           fst (set_VdifferenceMax (PyInt n) verbose safety s) = Inr True
           \<and> settings (snd (set_VdifferenceMax (PyInt n) verbose safety s)) = (settings s)\<lparr>VdifferenceMax := Some n\<rparr>"
    using utf8_valid_ack by (simp add: set_VdifferenceMax_outcome)
  show "\<not> int_in_range 0 200 v \<Longrightarrow>
           fst (set_VdifferenceMax v verbose safety s) = Inr False
           \<and> settings (snd (set_VdifferenceMax v verbose safety s)) = settings s"
    by (simp add: set_VdifferenceMax_invalid)
  show "reply s \<noteq> ack \<Longrightarrow> settings (snd (set_VdifferenceMax v verbose safety s)) = settings s"
    by (cases "is_HV_on s"; cases "int_in_range 0 200 v")
       (simp_all add: set_VdifferenceMax_refused set_VdifferenceMax_invalid set_VdifferenceMax_outcome print_line_frame)
  show "reply s \<noteq> ack \<Longrightarrow> utf8_valid (reply s) \<Longrightarrow> fst (set_VdifferenceMax v verbose safety s) = Inr False"
    by (cases "is_HV_on s"; cases "int_in_range 0 200 v")
       (simp_all add: set_VdifferenceMax_refused set_VdifferenceMax_invalid set_VdifferenceMax_outcome)
  show "\<not> is_HV_on s \<Longrightarrow> int_in_range 0 200 v \<Longrightarrow> \<not> utf8_valid (reply s) \<Longrightarrow>
           fst (set_VdifferenceMax v verbose safety s) = Inl UnicodeDecodeError"
    by (simp add: set_VdifferenceMax_outcome)
qed

lemma set_HardwareFilterBW_commit:
  shows "\<not> is_HV_on s \<Longrightarrow> int_in_range 50 15000 (PyInt n) \<Longrightarrow> reply s = ack \<Longrightarrow>
           fst (set_HardwareFilterBW (PyInt n) verbose s) = Inr True
           \<and> settings (snd (set_HardwareFilterBW (PyInt n) verbose s)) = (settings s)\<lparr>HardwareFilterBW := Some n\<rparr>"
    and "\<not> int_in_range 50 15000 v \<Longrightarrow>
           fst (set_HardwareFilterBW v verbose s) = Inr False
           \<and> settings (snd (set_HardwareFilterBW v verbose s)) = settings s"
    and "reply s \<noteq> ack \<Longrightarrow> settings (snd (set_HardwareFilterBW v verbose s)) = settings s"
    and "reply s \<noteq> ack \<Longrightarrow> utf8_valid (reply s) \<Longrightarrow> fst (set_HardwareFilterBW v verbose s) = Inr False"
    and "\<not> is_HV_on s \<Longrightarrow> int_in_range 50 15000 v \<Longrightarrow> \<not> utf8_valid (reply s) \<Longrightarrow>
           fst (set_HardwareFilterBW v verbose s) = Inl UnicodeDecodeError"
proof -
  show "\<not> is_HV_on s \<Longrightarrow> int_in_range 50 15000 (PyInt n) \<Longrightarrow> reply s = ack \<Longrightarrow>
           fst (set_HardwareFilterBW (PyInt n) verbose s) = Inr True
           \<and> settings (snd (set_HardwareFilterBW (PyInt n) verbose s)) = (settings s)\<lparr>HardwareFilterBW := Some n\<rparr>"
    using utf8_valid_ack by (simp add: set_HardwareFilterBW_outcome)
  show "\<not> int_in_range 50 15000 v \<Longrightarrow>
           fst (set_HardwareFilterBW v verbose s) = Inr False
           \<and> settings (snd (set_HardwareFilterBW v verbose s)) = settings s"
    by (simp add: set_HardwareFilterBW_invalid)
  show "reply s \<noteq> ack \<Longrightarrow> settings (snd (set_HardwareFilterBW v verbose s)) = settings s"
    by (cases "is_HV_on s"; cases "int_in_range 50 15000 v")
       (simp_all add: set_HardwareFilterBW_refused set_HardwareFilterBW_invalid set_HardwareFilterBW_outcome print_line_frame)
  show "reply s \<noteq> ack \<Longrightarrow> utf8_valid (reply s) \<Longrightarrow> fst (set_HardwareFilterBW v verbose s) = Inr False"
    by (cases "is_HV_on s"; cases "int_in_range 50 15000 v")
       (simp_all add: set_HardwareFilterBW_refused set_HardwareFilterBW_invalid set_HardwareFilterBW_outcome)
  show "\<not> is_HV_on s \<Longrightarrow> int_in_range 50 15000 v \<Longrightarrow> \<not> utf8_valid (reply s) \<Longrightarrow>
           fst (set_HardwareFilterBW v verbose s) = Inl UnicodeDecodeError"
    by (simp add: set_HardwareFilterBW_outcome)
qed

text \<open>
  Claim C3, as amended. For \<^verbatim>\<open>set_Vbias\<close> (range 0 to 100), \<^verbatim>\<open>set_VdifferenceMax\<close> (0 to 200) and
  \<^verbatim>\<open>set_HardwareFilterBW\<close> (50 to 15000): with the high voltage off, an int of the range and the
  reply \<^verbatim>\<open>"MTI-OK\r\n"\<close> make the call return \<^verbatim>\<open>True\<close> and cache the value; a value that is not
  an int of the range makes it return \<^verbatim>\<open>False\<close> with the cache unchanged; on any other reply the
  cache is unchanged, and the call returns \<^verbatim>\<open>False\<close> when that reply decodes as UTF-8. A reply
  that does not decode makes an exchange that takes place raise \<^verbatim>\<open>UnicodeDecodeError\<close>.
\<close>

theorem setters_commit_on_ack:
  "((\<not> is_HV_on s \<and> int_in_range 0 100 (PyInt n) \<and> reply s = ack \<longrightarrow>
      fst (set_Vbias (PyInt n) verbose s) = Inr True
      \<and> settings (snd (set_Vbias (PyInt n) verbose s)) = (settings s)\<lparr>Vbias := Some n\<rparr>)
   \<and> (\<not> int_in_range 0 100 v \<longrightarrow>
      fst (set_Vbias v verbose s) = Inr False
      \<and> settings (snd (set_Vbias v verbose s)) = settings s)
   \<and> (reply s \<noteq> ack \<longrightarrow>
      settings (snd (set_Vbias v verbose s)) = settings s
      \<and> (utf8_valid (reply s) \<longrightarrow> fst (set_Vbias v verbose s) = Inr False))
   \<and> (\<not> is_HV_on s \<and> int_in_range 0 100 v \<and> \<not> utf8_valid (reply s) \<longrightarrow>
      fst (set_Vbias v verbose s) = Inl UnicodeDecodeError))\<and>
   ((\<not> is_HV_on s \<and> int_in_range 0 200 (PyInt n) \<and> reply s = ack \<longrightarrow>
      fst (set_VdifferenceMax (PyInt n) verbose safety s) = Inr True
      \<and> settings (snd (set_VdifferenceMax (PyInt n) verbose safety s)) = (settings s)\<lparr>VdifferenceMax := Some n\<rparr>)
   \<and> (\<not> int_in_range 0 200 v \<longrightarrow>
      fst (set_VdifferenceMax v verbose safety s) = Inr False
      \<and> settings (snd (set_VdifferenceMax v verbose safety s)) = settings s)
   \<and> (reply s \<noteq> ack \<longrightarrow>
      settings (snd (set_VdifferenceMax v verbose safety s)) = settings s
      \<and> (utf8_valid (reply s) \<longrightarrow> fst (set_VdifferenceMax v verbose safety s) = Inr False))
   \<and> (\<not> is_HV_on s \<and> int_in_range 0 200 v \<and> \<not> utf8_valid (reply s) \<longrightarrow>
      fst (set_VdifferenceMax v verbose safety s) = Inl UnicodeDecodeError))\<and>
   ((\<not> is_HV_on s \<and> int_in_range 50 15000 (PyInt n) \<and> reply s = ack \<longrightarrow>
      fst (set_HardwareFilterBW (PyInt n) verbose s) = Inr True
      \<and> settings (snd (set_HardwareFilterBW (PyInt n) verbose s)) = (settings s)\<lparr>HardwareFilterBW := Some n\<rparr>)
   \<and> (\<not> int_in_range 50 15000 v \<longrightarrow>
      fst (set_HardwareFilterBW v verbose s) = Inr False
      \<and> settings (snd (set_HardwareFilterBW v verbose s)) = settings s)
   \<and> (reply s \<noteq> ack \<longrightarrow>
      settings (snd (set_HardwareFilterBW v verbose s)) = settings s
      \<and> (utf8_valid (reply s) \<longrightarrow> fst (set_HardwareFilterBW v verbose s) = Inr False))
   \<and> (\<not> is_HV_on s \<and> int_in_range 50 15000 v \<and> \<not> utf8_valid (reply s) \<longrightarrow>
      fst (set_HardwareFilterBW v verbose s) = Inl UnicodeDecodeError))"
  by (intro conjI impI; (elim conjE)?)
     (simp_all only: set_Vbias_commit set_VdifferenceMax_commit set_HardwareFilterBW_commit
        not_False_eq_True)

theorem setters_commit_on_ack_witness:
  "fst (set_Vbias (PyInt 100) True (mock [ack])) = Inr True
   \<and> Vbias (settings (snd (set_Vbias (PyInt 100) True (mock [ack])))) = Some 100
   \<and> fst (set_VdifferenceMax (PyInt 201) True True (mock [ack])) = Inr False
   \<and> fst (set_HardwareFilterBW (PyInt 50) True (mock [''MTI-ERR'' @ [CR, LF]])) = Inr False
   \<and> HardwareFilterBW (settings (snd (set_HardwareFilterBW (PyInt 50) True (mock [''MTI-ERR'' @ [CR, LF]])))) = None
   \<and> fst (set_Vbias (PyBool True) True (mock [ack])) = Inr False"
proof -
  have a: "\<not> is_HV_on (mock [ack])" "int_in_range 0 100 (PyInt 100)" "reply (mock [ack]) = ack"
    "\<not> int_in_range 0 200 (PyInt 201)" "\<not> int_in_range 0 100 (PyBool True)"
    "reply (mock [''MTI-ERR'' @ [CR, LF]]) \<noteq> ack" "utf8_valid (reply (mock [''MTI-ERR'' @ [CR, LF]]))"
    by (simp_all add: mock_def reply_def int_in_range_def ser_read_def byte_in_def)
  show ?thesis
    using a setters_commit_on_ack[of "mock [ack]" 100 True "PyInt 201" True]
      setters_commit_on_ack[of "mock [''MTI-ERR'' @ [CR, LF]]" 50 True "PyInt 50" True]
      setters_commit_on_ack[of "mock [ack]" 100 True "PyBool True" True]
    by (simp add: mock_def)
qed

theorem set_Vbias_undecodable_reply_raises:
  "\<not> is_HV_on (mock [[CHR 0xFF]])
   \<and> reply (mock [[CHR 0xFF]]) \<noteq> ack
   \<and> fst (set_Vbias (PyInt 10) True (mock [[CHR 0xFF]])) = Inl UnicodeDecodeError
   \<and> fst (set_Vbias (PyInt 10) True (mock [[CHR 0xFF]])) \<noteq> Inr False"
  by (simp add: model_defs)

section \<open>High-voltage control\<close>

lemma format_cmd_EN: "format_cmd (PyStr (''MTI+EN'' @ [LF])) = Inr (''MTI+EN'' @ [LF])"
  by (simp add: format_cmd_def to_bytes_def bytes_ascii_def decode_def is_ascii_def byte_in_def
      slice_last_def slice_but_last_def)

lemma format_cmd_DI: "format_cmd (PyStr (''MTI+DI'' @ [LF])) = Inr (''MTI+DI'' @ [LF])"
  by (simp add: format_cmd_def to_bytes_def bytes_ascii_def decode_def is_ascii_def byte_in_def
      slice_last_def slice_but_last_def)

lemma HV_on_unset:
  assumes "Vbias (settings s) = None \<or> VdifferenceMax (settings s) = None
           \<or> HardwareFilterBW (settings s) = None"
  shows "HV_on verbose s =
     (Inr False,
      print_line ''Set Vbias, VdifferenceMax, and HardwarefilterBW before turning on mirror''
       (print_line ''Error: missing mirror parameters.'' s))"
  using assms by (auto simp: HV_on_def get_mirror_params_def)

lemma HV_on_sent:
  assumes "Vbias (settings s) \<noteq> None" "VdifferenceMax (settings s) \<noteq> None"
    "HardwareFilterBW (settings s) \<noteq> None"
  shows "HV_on verbose s =
     (if \<not> utf8_valid (reply s)
        then (Inl UnicodeDecodeError,
              snd (send_cmd (PyStr (''MTI+EN'' @ [LF])) 250 verbose False
                    (print_line ''Turning High Voltage on'' s)))
      else if reply s = ack
        then (Inr True,
              (snd (send_cmd (PyStr (''MTI+EN'' @ [LF])) 250 verbose False
                    (print_line ''Turning High Voltage on'' s)))\<lparr>is_HV_on := True\<rparr>)
      else (Inr False,
            snd (send_cmd (PyStr (''MTI+EN'' @ [LF])) 250 verbose False
                  (print_line ''Turning High Voltage on'' s))))"
proof -
  have "HV_on verbose s =
     (case send_cmd (PyStr (''MTI+EN'' @ [LF])) 250 verbose False
             (print_line ''Turning High Voltage on'' s) of
        (Inl e, s2) \<Rightarrow> (Inl e, s2)
      | (Inr resp, s2) \<Rightarrow>
          if resp = ack then (Inr True, s2\<lparr>is_HV_on := True\<rparr>) else (Inr False, s2))"
    using assms unfolding HV_on_def get_mirror_params_def Let_def by (simp del: not_None_eq)
  then show ?thesis
    by (simp only: commit_cases[OF format_cmd_EN] print_line_frame reply_def)
qed

lemma HV_on_outcome:
  assumes "Vbias (settings s) \<noteq> None" "VdifferenceMax (settings s) \<noteq> None"
    "HardwareFilterBW (settings s) \<noteq> None"
  shows "fst (HV_on verbose s) =
           (if \<not> utf8_valid (reply s) then Inl UnicodeDecodeError else Inr (reply s = ack))"
    and "is_HV_on (snd (HV_on verbose s)) =
           (if \<not> utf8_valid (reply s) then is_HV_on s else if reply s = ack then True else is_HV_on s)"
proof -
  note sent = HV_on_sent[OF assms, of verbose]
  note fr = send_cmd_frame[of "PyStr (''MTI+EN'' @ [LF])" 250 verbose False
      "print_line ''Turning High Voltage on'' s"]
  show "fst (HV_on verbose s) =
           (if \<not> utf8_valid (reply s) then Inl UnicodeDecodeError else Inr (reply s = ack))"
    unfolding sent by (simp only: if_distrib[of fst] fst_conv if_bool_Inr)
  have upd: "is_HV_on (st\<lparr>is_HV_on := True\<rparr>) = True" for st :: MEMS_device by simp
  show "is_HV_on (snd (HV_on verbose s)) =
           (if \<not> utf8_valid (reply s) then is_HV_on s else if reply s = ack then True else is_HV_on s)"
    unfolding sent by (simp only: if_distrib[of snd] if_distrib[of is_HV_on] snd_conv upd fr print_line_frame)
qed

text \<open>
  Claim C2. \<^verbatim>\<open>HV_on\<close> returns \<^verbatim>\<open>False\<close>, with the flag and the transport untouched, whenever one
  of the three cached settings is unset. It returns \<^verbatim>\<open>True\<close> exactly when all three are set and
  the reply is \<^verbatim>\<open>"MTI-OK\r\n"\<close>, and the flag is on afterwards exactly when it was on before or
  that happened: in every other case a flag that was off stays off.
\<close>

theorem HV_on_needs_settings_and_ack:
  "(Vbias (settings s) = None \<or> VdifferenceMax (settings s) = None
      \<or> HardwareFilterBW (settings s) = None \<longrightarrow>
      fst (HV_on verbose s) = Inr False
      \<and> is_HV_on (snd (HV_on verbose s)) = is_HV_on s
      \<and> ser (snd (HV_on verbose s)) = ser s)
   \<and> (fst (HV_on verbose s) = Inr True) =
       (Vbias (settings s) \<noteq> None \<and> VdifferenceMax (settings s) \<noteq> None
        \<and> HardwareFilterBW (settings s) \<noteq> None \<and> reply s = ack)
   \<and> is_HV_on (snd (HV_on verbose s)) =
       (is_HV_on s \<or> (Vbias (settings s) \<noteq> None \<and> VdifferenceMax (settings s) \<noteq> None
        \<and> HardwareFilterBW (settings s) \<noteq> None \<and> reply s = ack))"
proof -
  define U where "U \<longleftrightarrow> Vbias (settings s) = None \<or> VdifferenceMax (settings s) = None
              \<or> HardwareFilterBW (settings s) = None"
  define A where "A \<longleftrightarrow> utf8_valid (reply s)"
  define B where "B \<longleftrightarrow> reply s = ack"
  have BA: "B \<longrightarrow> A" unfolding A_def B_def using utf8_valid_ack by (auto simp only:)
  have allset: "(Vbias (settings s) \<noteq> None \<and> VdifferenceMax (settings s) \<noteq> None
        \<and> HardwareFilterBW (settings s) \<noteq> None) = (\<not> U)"
    unfolding U_def by (simp only: de_Morgan_disj)
  have u: "U \<longrightarrow> fst (HV_on verbose s) = Inr False
      \<and> is_HV_on (snd (HV_on verbose s)) = is_HV_on s \<and> ser (snd (HV_on verbose s)) = ser s"
  proof
    assume U
    then have "HV_on verbose s =
     (Inr False,
      print_line ''Set Vbias, VdifferenceMax, and HardwarefilterBW before turning on mirror''
       (print_line ''Error: missing mirror parameters.'' s))"
      unfolding U_def by (rule HV_on_unset)
    then show "fst (HV_on verbose s) = Inr False
      \<and> is_HV_on (snd (HV_on verbose s)) = is_HV_on s \<and> ser (snd (HV_on verbose s)) = ser s"
      by (simp only: fst_conv snd_conv print_line_frame simp_thms)
  qed
  have n1: "\<not> U \<longrightarrow> fst (HV_on verbose s) = (if \<not> A then Inl UnicodeDecodeError else Inr B)"
    unfolding U_def A_def B_def using HV_on_outcome(1)[of s verbose] by blast
  have n2: "\<not> U \<longrightarrow> is_HV_on (snd (HV_on verbose s)) =
           (if \<not> A then is_HV_on s else if B then True else is_HV_on s)"
    unfolding U_def A_def B_def using HV_on_outcome(2)[of s verbose] by blast
  have "(U \<longrightarrow> fst (HV_on verbose s) = Inr False
      \<and> is_HV_on (snd (HV_on verbose s)) = is_HV_on s \<and> ser (snd (HV_on verbose s)) = ser s)
   \<and> (fst (HV_on verbose s) = Inr True) = (\<not> U \<and> B)
   \<and> is_HV_on (snd (HV_on verbose s)) = (is_HV_on s \<or> (\<not> U \<and> B))"
    using u n1 n2 BA by (cases U; cases A; cases B) simp_all
  then show ?thesis
    unfolding allset[symmetric] conj_assoc unfolding U_def B_def .
qed

theorem HV_on_needs_settings_and_ack_witness:
  "fst (HV_on True (mock [ack])) = Inr False
   \<and> \<not> is_HV_on (snd (HV_on True (mock [ack])))
   \<and> is_HV_on (snd (HV_on True
        ((mock [ack])\<lparr>settings := \<lparr>Vbias = Some 70, VdifferenceMax = Some 100, HardwareFilterBW = Some 200\<rparr>\<rparr>)))
   \<and> \<not> is_HV_on (snd (HV_on True
        ((mock [''MTI-ERR'' @ [CR, LF]])\<lparr>settings := \<lparr>Vbias = Some 70, VdifferenceMax = Some 100, HardwareFilterBW = Some 200\<rparr>\<rparr>)))"
proof -
  let ?cfg = "\<lparr>Vbias = Some 70, VdifferenceMax = Some 100, HardwareFilterBW = Some 200\<rparr>"
  have a: "Vbias (settings (mock [ack])) = None" "\<not> is_HV_on (mock [ack])"
    by (simp_all add: mock_def)
  have b: "Vbias (settings ((mock [ack])\<lparr>settings := ?cfg\<rparr>)) \<noteq> None"
    "VdifferenceMax (settings ((mock [ack])\<lparr>settings := ?cfg\<rparr>)) \<noteq> None"
    "HardwareFilterBW (settings ((mock [ack])\<lparr>settings := ?cfg\<rparr>)) \<noteq> None"
    "reply ((mock [ack])\<lparr>settings := ?cfg\<rparr>) = ack"
    by (simp_all add: mock_def reply_def ser_read_def)
  have c: "\<not> is_HV_on ((mock [''MTI-ERR'' @ [CR, LF]])\<lparr>settings := ?cfg\<rparr>)"
    "reply ((mock [''MTI-ERR'' @ [CR, LF]])\<lparr>settings := ?cfg\<rparr>) \<noteq> ack"
    by (simp_all add: mock_def reply_def ser_read_def)
  have 1: "fst (HV_on True (mock [ack])) = Inr False \<and> \<not> is_HV_on (snd (HV_on True (mock [ack])))"
    using HV_on_needs_settings_and_ack[of "mock [ack]" True] a by blast
  have 2: "is_HV_on (snd (HV_on True ((mock [ack])\<lparr>settings := ?cfg\<rparr>)))"
    using HV_on_needs_settings_and_ack[of "(mock [ack])\<lparr>settings := ?cfg\<rparr>" True] b by blast
  have 3: "\<not> is_HV_on (snd (HV_on True ((mock [''MTI-ERR'' @ [CR, LF]])\<lparr>settings := ?cfg\<rparr>)))"
    using HV_on_needs_settings_and_ack[of "(mock [''MTI-ERR'' @ [CR, LF]])\<lparr>settings := ?cfg\<rparr>" True] c
    by blast
  from 1 2 3 show ?thesis by blast
qed

lemma set_Vbias_writes:
  assumes "\<not> is_HV_on s"
  shows "written (ser (snd (set_Vbias v verbose s))) = written (ser s) @ setter_cmd 0 100 ''MTI+VB '' v"
    and "is_HV_on (snd (set_Vbias v verbose s)) = is_HV_on s"
proof -
  show "written (ser (snd (set_Vbias v verbose s))) = written (ser s) @ setter_cmd 0 100 ''MTI+VB '' v"
  proof (cases "int_in_range 0 100 v")
    case True
    then obtain n where v: "v = PyInt n" and n: "0 \<le> n \<and> n \<le> 100"
      by (auto simp: int_in_range_def split: pyval.splits)
    have "setter_cmd 0 100 ''MTI+VB '' v = [''MTI+VB '' @ str_int n @ [LF]]"
      unfolding setter_cmd_def v using n by simp
    then show ?thesis using set_Vbias_outcome(3)[OF assms True, of verbose] v by simp
  next
    case False
    then have "setter_cmd 0 100 ''MTI+VB '' v = []"
      by (auto simp: setter_cmd_def int_in_range_def split: pyval.splits)
    then show ?thesis using set_Vbias_invalid[OF False, of verbose s] by simp
  qed
  show "is_HV_on (snd (set_Vbias v verbose s)) = is_HV_on s"
  proof (cases "int_in_range 0 100 v")
    case True
    then show ?thesis by (rule set_Vbias_outcome(5)[OF assms])
  next
    case False
    then have "set_Vbias v verbose s =
      (Inr False, print_line (''Error: invalid selection. Vbias should be a positive integer in range [0,100]'' @ [LF]) s)"
      using assms by (auto simp: set_Vbias_def int_in_range_def split: pyval.splits)
    then show ?thesis by (simp only: snd_conv print_line_frame)
  qed
qed

lemma set_VdifferenceMax_writes:
  assumes "\<not> is_HV_on s"
  shows "written (ser (snd (set_VdifferenceMax v verbose safety s))) = written (ser s) @ setter_cmd 0 200 ''MTI+VD '' v"
    and "is_HV_on (snd (set_VdifferenceMax v verbose safety s)) = is_HV_on s"
proof -
  show "written (ser (snd (set_VdifferenceMax v verbose safety s))) = written (ser s) @ setter_cmd 0 200 ''MTI+VD '' v"
  proof (cases "int_in_range 0 200 v")
    case True
    then obtain n where v: "v = PyInt n" and n: "0 \<le> n \<and> n \<le> 200"
      by (auto simp: int_in_range_def split: pyval.splits)
    have "setter_cmd 0 200 ''MTI+VD '' v = [''MTI+VD '' @ str_int n @ [LF]]"
      unfolding setter_cmd_def v using n by simp
    then show ?thesis using set_VdifferenceMax_outcome(3)[OF assms True, of verbose] v by simp
  next
    case False
    then have "setter_cmd 0 200 ''MTI+VD '' v = []"
      by (auto simp: setter_cmd_def int_in_range_def split: pyval.splits)
    then show ?thesis using set_VdifferenceMax_invalid[OF False, of verbose safety s] by simp
  qed
  show "is_HV_on (snd (set_VdifferenceMax v verbose safety s)) = is_HV_on s"
  proof (cases "int_in_range 0 200 v")
    case True
    then show ?thesis by (rule set_VdifferenceMax_outcome(5)[OF assms])
  next
    case False
    then have "set_VdifferenceMax v verbose safety s =
      (Inr False, print_line (''Error: invalid selection. VdifferenceMax should be a positive integer in range [0,200]'' @ [LF]) s)"
      using assms by (auto simp: set_VdifferenceMax_def int_in_range_def split: pyval.splits)
    then show ?thesis by (simp only: snd_conv print_line_frame)
  qed
qed

lemma set_HardwareFilterBW_writes:
  assumes "\<not> is_HV_on s"
  shows "written (ser (snd (set_HardwareFilterBW v verbose s))) = written (ser s) @ setter_cmd 50 15000 ''MTI+BW '' v"
    and "is_HV_on (snd (set_HardwareFilterBW v verbose s)) = is_HV_on s"
proof -
  show "written (ser (snd (set_HardwareFilterBW v verbose s))) = written (ser s) @ setter_cmd 50 15000 ''MTI+BW '' v"
  proof (cases "int_in_range 50 15000 v")
    case True
    then obtain n where v: "v = PyInt n" and n: "50 \<le> n \<and> n \<le> 15000"
      by (auto simp: int_in_range_def split: pyval.splits)
    have "setter_cmd 50 15000 ''MTI+BW '' v = [''MTI+BW '' @ str_int n @ [LF]]"
      unfolding setter_cmd_def v using n by simp
    then show ?thesis using set_HardwareFilterBW_outcome(3)[OF assms True, of verbose] v by simp
  next
    case False
    then have "setter_cmd 50 15000 ''MTI+BW '' v = []"
      by (auto simp: setter_cmd_def int_in_range_def split: pyval.splits)
    then show ?thesis using set_HardwareFilterBW_invalid[OF False, of verbose s] by simp
  qed
  show "is_HV_on (snd (set_HardwareFilterBW v verbose s)) = is_HV_on s"
  proof (cases "int_in_range 50 15000 v")
    case True
    then show ?thesis by (rule set_HardwareFilterBW_outcome(5)[OF assms])
  next
    case False
    then have "set_HardwareFilterBW v verbose s =
      (Inr False, print_line (''Error: invalid selection. HardwareFilterBW should be a positive integer in range [50,15000]'' @ [LF]) s)"
      using assms by (auto simp: set_HardwareFilterBW_def int_in_range_def split: pyval.splits)
    then show ?thesis by (simp only: snd_conv print_line_frame)
  qed
qed

section \<open>Setting all parameters\<close>

text \<open>What each setter returns, in every case.\<close>

lemma set_Vbias_result:
  "fst (set_Vbias v verbose s) =
     (if is_HV_on s \<or> \<not> int_in_range 0 100 v then Inr False
      else if \<not> utf8_valid (reply s) then Inl UnicodeDecodeError
      else Inr (reply s = ack))"
proof (cases "is_HV_on s")
  case True
  then show ?thesis by (simp add: set_Vbias_refused)
next
  case off: False
  show ?thesis
  proof (cases "int_in_range 0 100 v")
    case True
    show ?thesis unfolding set_Vbias_outcome(1)[OF off True] using off True by (simp only: simp_thms if_False)
  next
    case False
    show ?thesis using set_Vbias_invalid[OF False, of verbose s] False by (simp only: simp_thms if_True)
  qed
qed

lemma set_VdifferenceMax_result:
  "fst (set_VdifferenceMax v verbose safety s) =
     (if is_HV_on s \<or> \<not> int_in_range 0 200 v then Inr False
      else if \<not> utf8_valid (reply s) then Inl UnicodeDecodeError
      else Inr (reply s = ack))"
proof (cases "is_HV_on s")
  case True
  then show ?thesis by (simp add: set_VdifferenceMax_refused)
next
  case off: False
  show ?thesis
  proof (cases "int_in_range 0 200 v")
    case True
    show ?thesis unfolding set_VdifferenceMax_outcome(1)[OF off True] using off True
      by (simp only: simp_thms if_False)
  next
    case False
    show ?thesis using set_VdifferenceMax_invalid[OF False, of verbose safety s] False
      by (simp only: simp_thms if_True)
  qed
qed

lemma set_HardwareFilterBW_result:
  "fst (set_HardwareFilterBW v verbose s) =
     (if is_HV_on s \<or> \<not> int_in_range 50 15000 v then Inr False
      else if \<not> utf8_valid (reply s) then Inl UnicodeDecodeError
      else Inr (reply s = ack))"
proof (cases "is_HV_on s")
  case True
  then show ?thesis by (simp add: set_HardwareFilterBW_refused)
next
  case off: False
  show ?thesis
  proof (cases "int_in_range 50 15000 v")
    case True
    show ?thesis unfolding set_HardwareFilterBW_outcome(1)[OF off True] using off True
      by (simp only: simp_thms if_False)
  next
    case False
    show ?thesis using set_HardwareFilterBW_invalid[OF False, of verbose s] False
      by (simp only: simp_thms if_True)
  qed
qed

lemma set_mirror_params_unfold:
  "set_mirror_params v1 v2 v3 verbose s =
     (case fst (set_Vbias v1 True s) of
        Inl e \<Rightarrow> (Inl e, snd (set_Vbias v1 True s))
      | Inr r1 \<Rightarrow>
     (case fst (set_VdifferenceMax v2 True True (snd (set_Vbias v1 True s))) of
        Inl e \<Rightarrow> (Inl e, snd (set_VdifferenceMax v2 True True (snd (set_Vbias v1 True s))))
      | Inr r2 \<Rightarrow>
     (case fst (set_HardwareFilterBW v3 True
                 (snd (set_VdifferenceMax v2 True True (snd (set_Vbias v1 True s))))) of
        Inl e \<Rightarrow>
          (Inl e,
           snd (set_HardwareFilterBW v3 True
                 (snd (set_VdifferenceMax v2 True True (snd (set_Vbias v1 True s))))))
      | Inr r3 \<Rightarrow>
          (Inr (r1 \<and> r2 \<and> r3),
           snd (set_HardwareFilterBW v3 True
                 (snd (set_VdifferenceMax v2 True True (snd (set_Vbias v1 True s)))))))))"
proof -
  obtain a s1 where a: "set_Vbias v1 True s = (a, s1)" by fastforce
  obtain b s2 where b: "set_VdifferenceMax v2 True True s1 = (b, s2)" by fastforce
  obtain c s3 where c: "set_HardwareFilterBW v3 True s2 = (c, s3)" by fastforce
  show ?thesis
    unfolding set_mirror_params_def a fst_conv snd_conv prod.case b c
    by (cases a; cases b; cases c) (simp_all only: sum.case prod.case b c fst_conv snd_conv, auto)
qed

text \<open>
  Claim C6, as amended. \<^verbatim>\<open>set_mirror_params\<close> runs \<^verbatim>\<open>set_Vbias\<close>, then \<^verbatim>\<open>set_VdifferenceMax\<close> on the
  state the first left, then \<^verbatim>\<open>set_HardwareFilterBW\<close> on the state the second left. A setter that
  returns, \<^verbatim>\<open>True\<close> or \<^verbatim>\<open>False\<close>, is followed by the next one, and when all three return the result
  is the conjunction of theirs. A setter that raises ends the method with that exception, in the
  state that setter left, and the later setters do not run. A setter returns \<^verbatim>\<open>False\<close> when the
  high voltage is on or its value is not an int of its range; otherwise it raises
  \<^verbatim>\<open>UnicodeDecodeError\<close> when the reply does not decode, and returns whether the reply is
  \<^verbatim>\<open>"MTI-OK\r\n"\<close> when it does. With the high voltage off, the commands on the wire are those of
  the in-range values, in order, up to and including the setter that raised.
\<close>

theorem set_mirror_params_calls_all:
  "set_mirror_params v1 v2 v3 verbose s =
     (case fst (set_Vbias v1 True s) of
        Inl e \<Rightarrow> (Inl e, snd (set_Vbias v1 True s))
      | Inr r1 \<Rightarrow>
     (case fst (set_VdifferenceMax v2 True True (snd (set_Vbias v1 True s))) of
        Inl e \<Rightarrow> (Inl e, snd (set_VdifferenceMax v2 True True (snd (set_Vbias v1 True s))))
      | Inr r2 \<Rightarrow>
     (case fst (set_HardwareFilterBW v3 True
                 (snd (set_VdifferenceMax v2 True True (snd (set_Vbias v1 True s))))) of
        Inl e \<Rightarrow>
          (Inl e,
           snd (set_HardwareFilterBW v3 True
                 (snd (set_VdifferenceMax v2 True True (snd (set_Vbias v1 True s))))))
      | Inr r3 \<Rightarrow>
          (Inr (r1 \<and> r2 \<and> r3),
           snd (set_HardwareFilterBW v3 True
                 (snd (set_VdifferenceMax v2 True True (snd (set_Vbias v1 True s)))))))))
   \<and> fst (set_Vbias v b t) =
       (if is_HV_on t \<or> \<not> int_in_range 0 100 v then Inr False
        else if \<not> utf8_valid (reply t) then Inl UnicodeDecodeError
        else Inr (reply t = ack))
   \<and> fst (set_VdifferenceMax v b safety t) =
       (if is_HV_on t \<or> \<not> int_in_range 0 200 v then Inr False
        else if \<not> utf8_valid (reply t) then Inl UnicodeDecodeError
        else Inr (reply t = ack))
   \<and> fst (set_HardwareFilterBW v b t) =
       (if is_HV_on t \<or> \<not> int_in_range 50 15000 v then Inr False
        else if \<not> utf8_valid (reply t) then Inl UnicodeDecodeError
        else Inr (reply t = ack))
   \<and> (\<not> is_HV_on s \<longrightarrow>
        written (ser (snd (set_mirror_params v1 v2 v3 verbose s))) =
          written (ser s) @ setter_cmd 0 100 ''MTI+VB '' v1
          @ (case fst (set_Vbias v1 True s) of
               Inl e \<Rightarrow> []
             | Inr r1 \<Rightarrow>
                 setter_cmd 0 200 ''MTI+VD '' v2
                 @ (case fst (set_VdifferenceMax v2 True True (snd (set_Vbias v1 True s))) of
                      Inl e \<Rightarrow> []
                    | Inr r2 \<Rightarrow> setter_cmd 50 15000 ''MTI+BW '' v3)))"
proof (intro conjI impI)
  show "set_mirror_params v1 v2 v3 verbose s =
     (case fst (set_Vbias v1 True s) of
        Inl e \<Rightarrow> (Inl e, snd (set_Vbias v1 True s))
      | Inr r1 \<Rightarrow>
     (case fst (set_VdifferenceMax v2 True True (snd (set_Vbias v1 True s))) of
        Inl e \<Rightarrow> (Inl e, snd (set_VdifferenceMax v2 True True (snd (set_Vbias v1 True s))))
      | Inr r2 \<Rightarrow>
     (case fst (set_HardwareFilterBW v3 True
                 (snd (set_VdifferenceMax v2 True True (snd (set_Vbias v1 True s))))) of
        Inl e \<Rightarrow>
          (Inl e,
           snd (set_HardwareFilterBW v3 True
                 (snd (set_VdifferenceMax v2 True True (snd (set_Vbias v1 True s))))))
      | Inr r3 \<Rightarrow>
          (Inr (r1 \<and> r2 \<and> r3),
           snd (set_HardwareFilterBW v3 True
                 (snd (set_VdifferenceMax v2 True True (snd (set_Vbias v1 True s)))))))))"
    by (rule set_mirror_params_unfold)
  show "fst (set_Vbias v b t) =
       (if is_HV_on t \<or> \<not> int_in_range 0 100 v then Inr False
        else if \<not> utf8_valid (reply t) then Inl UnicodeDecodeError
        else Inr (reply t = ack))"
    by (rule set_Vbias_result)
  show "fst (set_VdifferenceMax v b safety t) =
       (if is_HV_on t \<or> \<not> int_in_range 0 200 v then Inr False
        else if \<not> utf8_valid (reply t) then Inl UnicodeDecodeError
        else Inr (reply t = ack))"
    by (rule set_VdifferenceMax_result)
  show "fst (set_HardwareFilterBW v b t) =
       (if is_HV_on t \<or> \<not> int_in_range 50 15000 v then Inr False
        else if \<not> utf8_valid (reply t) then Inl UnicodeDecodeError
        else Inr (reply t = ack))"
    by (rule set_HardwareFilterBW_result)
  assume off: "\<not> is_HV_on s"
  define A where "A = set_Vbias v1 True s"
  define B where "B = set_VdifferenceMax v2 True True (snd A)"
  define C where "C = set_HardwareFilterBW v3 True (snd B)"
  have offA: "\<not> is_HV_on (snd A)" unfolding A_def using set_Vbias_writes(2)[OF off] off by simp
  have offB: "\<not> is_HV_on (snd B)" unfolding B_def using set_VdifferenceMax_writes(2)[OF offA] offA by simp
  have wA: "written (ser (snd A)) = written (ser s) @ setter_cmd 0 100 ''MTI+VB '' v1"
    unfolding A_def by (rule set_Vbias_writes(1)[OF off])
  have wB: "written (ser (snd B)) = written (ser (snd A)) @ setter_cmd 0 200 ''MTI+VD '' v2"
    unfolding B_def by (rule set_VdifferenceMax_writes(1)[OF offA])
  have wC: "written (ser (snd C)) = written (ser (snd B)) @ setter_cmd 50 15000 ''MTI+BW '' v3"
    unfolding C_def by (rule set_HardwareFilterBW_writes(1)[OF offB])
  note u = set_mirror_params_unfold[of v1 v2 v3 verbose s, folded A_def, folded B_def, folded C_def]
  show "written (ser (snd (set_mirror_params v1 v2 v3 verbose s))) =
          written (ser s) @ setter_cmd 0 100 ''MTI+VB '' v1
          @ (case fst (set_Vbias v1 True s) of
               Inl e \<Rightarrow> []
             | Inr r1 \<Rightarrow>
                 setter_cmd 0 200 ''MTI+VD '' v2
                 @ (case fst (set_VdifferenceMax v2 True True (snd (set_Vbias v1 True s))) of
                      Inl e \<Rightarrow> []
                    | Inr r2 \<Rightarrow> setter_cmd 50 15000 ''MTI+BW '' v3))"
    unfolding u A_def[symmetric] B_def[symmetric]
    by (cases "fst A"; cases "fst B"; cases "fst C")
       (simp_all only: sum.case snd_conv wA wB wC append_assoc append_Nil2)
qed

theorem set_mirror_params_calls_all_witness:
  "\<not> is_HV_on (mock [ack, ack])
   \<and> fst (set_mirror_params (PyInt 101) (PyInt 100) (PyInt 200) False (mock [ack, ack])) = Inr False
   \<and> written (ser (snd (set_mirror_params (PyInt 101) (PyInt 100) (PyInt 200) False
                          (mock [ack, ack])))) =
       [''MTI+VD 100'' @ [LF], ''MTI+BW 200'' @ [LF]]"
proof -
  let ?s = "mock [ack, ack]"
  let ?a = "set_Vbias (PyInt 101) True ?s"
  let ?b = "set_VdifferenceMax (PyInt 100) True True (snd ?a)"
  let ?c = "set_HardwareFilterBW (PyInt 200) True (snd ?b)"
  have off: "\<not> is_HV_on ?s" by (simp add: mock_def)
  have w0: "written (ser ?s) = []" by (simp add: mock_def)
  have a: "fst ?a = Inr False" by (simp add: model_defs)
  have b: "fst ?b = Inr True" by (simp add: model_defs)
  have c: "fst ?c = Inr True" by (simp add: model_defs)
  have c1: "setter_cmd 0 100 ''MTI+VB '' (PyInt 101) = []" by (simp add: setter_cmd_def)
  have c2: "setter_cmd 0 200 ''MTI+VD '' (PyInt 100) = [''MTI+VD 100'' @ [LF]]"
    by (simp add: model_defs setter_cmd_def)
  have c3: "setter_cmd 50 15000 ''MTI+BW '' (PyInt 200) = [''MTI+BW 200'' @ [LF]]"
    by (simp add: model_defs setter_cmd_def)
  note t = set_mirror_params_calls_all[of "PyInt 101" "PyInt 100" "PyInt 200" False ?s]
  note t1 = t[THEN conjunct1]
  note t5 = t[THEN conjunct2, THEN conjunct2, THEN conjunct2, THEN conjunct2, rule_format, OF off]
  have e: "fst (set_mirror_params (PyInt 101) (PyInt 100) (PyInt 200) False ?s) = Inr False"
    by (simp only: t1 a b c sum.case fst_conv simp_thms)
  have w: "written (ser (snd (set_mirror_params (PyInt 101) (PyInt 100) (PyInt 200) False ?s))) =
       [''MTI+VD 100'' @ [LF], ''MTI+BW 200'' @ [LF]]"
    by (simp only: t5 a b sum.case w0 c1 c2 c3, simp)
  from off e w show ?thesis by (intro conjI)
qed

text \<open>
  The specification's own wording of this property fails on a device whose reply to the first
  command is not UTF-8: all three values are in range and the high voltage is off, yet \<^verbatim>\<open>set_Vbias\<close> raises
  \<^verbatim>\<open>UnicodeDecodeError\<close>, the method ends with it, and only \<^verbatim>\<open>MTI+VB 70\<close> has been written:
  \<^verbatim>\<open>set_VdifferenceMax\<close> and \<^verbatim>\<open>set_HardwareFilterBW\<close> were not invoked, although two
  acknowledgements were waiting.
\<close>

theorem set_mirror_params_stops_on_undecodable_reply:
  "int_in_range 0 100 (PyInt 70) \<and> int_in_range 0 200 (PyInt 100)
   \<and> int_in_range 50 15000 (PyInt 200)
   \<and> \<not> is_HV_on (mock [[CHR 0xFF], ack, ack])
   \<and> fst (set_mirror_params (PyInt 70) (PyInt 100) (PyInt 200) True
            (mock [[CHR 0xFF], ack, ack])) = Inl UnicodeDecodeError
   \<and> written (ser (snd (set_mirror_params (PyInt 70) (PyInt 100) (PyInt 200) True
                          (mock [[CHR 0xFF], ack, ack])))) = [''MTI+VB 70'' @ [LF]]
   \<and> rx (ser (snd (set_mirror_params (PyInt 70) (PyInt 100) (PyInt 200) True
                          (mock [[CHR 0xFF], ack, ack])))) = [ack, ack]"
proof -
  let ?s = "mock [[CHR 0xFF], ack, ack]"
  let ?a = "set_Vbias (PyInt 70) True ?s"
  have r: "int_in_range 0 100 (PyInt 70) \<and> int_in_range 0 200 (PyInt 100)
   \<and> int_in_range 50 15000 (PyInt 200) \<and> \<not> is_HV_on ?s"
    by (simp add: model_defs)
  have a: "fst ?a = Inl UnicodeDecodeError" by (simp add: model_defs)
  have wa: "written (ser (snd ?a)) = [''MTI+VB 70'' @ [LF]]" by (simp add: model_defs)
  have ra: "rx (ser (snd ?a)) = [ack, ack]" by (simp add: model_defs)
  have u: "set_mirror_params (PyInt 70) (PyInt 100) (PyInt 200) True ?s
            = (Inl UnicodeDecodeError, snd ?a)"
    by (simp only: set_mirror_params_unfold a sum.case)
  show ?thesis using r by (simp only: u fst_conv snd_conv wa ra simp_thms)
qed

section \<open>Position control\<close>

lemma is_ascii_iff: "is_ascii c \<longleftrightarrow> \<not> digit7 c"
  by (cases c) (simp add: is_ascii_def of_char_def)

lemma explode_ascii: "list_all is_ascii (String.explode l)"
  using String.literal.explode[of l] by (simp add: list_all_iff is_ascii_iff)

lemma py_str_ascii: "is_number v \<Longrightarrow> list_all is_ascii (py_str fr v)"
  by (cases v) (simp_all add: is_number_def py_str_def str_int_ascii explode_ascii is_ascii_def)

lemma format_cmd_GT:
  assumes "is_number x" "is_number y"
  shows "format_cmd (PyStr (''MTI+GT '' @ py_str fr x @ '' '' @ py_str fr y @ '' 0'')) =
         Inr ((''MTI+GT '' @ py_str fr x @ '' '' @ py_str fr y @ '' 0'') @ [LF])"
proof (rule format_cmd_plain)
  show "list_all is_ascii (''MTI+GT '' @ py_str fr x @ '' '' @ py_str fr y @ '' 0'')"
    using py_str_ascii[OF assms(1), of fr] py_str_ascii[OF assms(2), of fr]
    by (simp add: is_ascii_def)
qed simp_all

text \<open>The range test on numbers.\<close>

lemma range_test:
  assumes "is_number x" "is_number y"
  shows "py_or (py_lt x (- 1)) (py_or (py_lt y (- 1)) (py_or (py_gt x 1) (py_gt y 1))) =
         Inr (beyond_unit x \<or> beyond_unit y)"
proof -
  have x: "py_lt x (- 1) = Inr (py_lt x (- 1) = Inr True)" "py_gt x 1 = Inr (py_gt x 1 = Inr True)"
    "beyond_unit x = (py_lt x (- 1) = Inr True \<or> py_gt x 1 = Inr True)"
    using assms(1)
    by (auto simp: is_number_def py_lt_def py_gt_def beyond_unit_def float_lt_def float_gt_def
        split: pyval.splits pyfloat.splits)
  have y: "py_lt y (- 1) = Inr (py_lt y (- 1) = Inr True)" "py_gt y 1 = Inr (py_gt y 1 = Inr True)"
    "beyond_unit y = (py_lt y (- 1) = Inr True \<or> py_gt y 1 = Inr True)"
    using assms(2)
    by (auto simp: is_number_def py_lt_def py_gt_def beyond_unit_def float_lt_def float_gt_def
        split: pyval.splits pyfloat.splits)
  have or: "py_or (Inr a) (Inr b) = Inr (a \<or> b)" for a b
    by (cases a) (simp_all add: py_or_def)
  show ?thesis
    by (subst x(1), subst y(1), subst x(2), subst y(2)) (auto simp only: or x(3) y(3))
qed


lemma commit_cases_gen:
  assumes "format_cmd cmd = Inr c"
  shows "(case send_cmd cmd n pr pc s1 of
            (Inl e, s2) \<Rightarrow> (Inl e, s2)
          | (Inr resp, s2) \<Rightarrow> if resp = ack then (Inr a, upd s2) else (Inr b, s2)) =
         (if \<not> utf8_valid (fst (ser_read n (ser s1))) then (Inl UnicodeDecodeError, snd (send_cmd cmd n pr pc s1))
          else if fst (ser_read n (ser s1)) = ack then (Inr a, upd (snd (send_cmd cmd n pr pc s1)))
          else (Inr b, snd (send_cmd cmd n pr pc s1)))"
proof -
  obtain r s2 where eq: "send_cmd cmd n pr pc s1 = (r, s2)" by fastforce
  have r: "r = decode (fst (ser_read n (ser s1)))"
    using send_cmd_formatted(1)[OF assms, of n pr pc s1] eq by simp
  show ?thesis
  proof (cases "utf8_valid (fst (ser_read n (ser s1)))")
    case True
    then have "r = Inr (fst (ser_read n (ser s1)))" using r by (simp add: decode_def)
    then show ?thesis using True eq by simp
  next
    case False
    then have "r = Inl UnicodeDecodeError" using r by (simp add: decode_def)
    then show ?thesis using False eq by simp
  qed
qed


lemma set_mirror_position_outcome:
  assumes "is_number x" "is_number y" "\<not> beyond_unit x" "\<not> beyond_unit y"
  shows "fst (set_mirror_position fr x y verbose s) =
           (if \<not> utf8_valid (reply s) then Inl UnicodeDecodeError
            else if reply s = ack then Inr (PyBool True) else Inr PyNone)"
    and "position (snd (set_mirror_position fr x y verbose s)) =
           (if reply s = ack then (position s)\<lparr>pos_x := x, pos_y := y\<rparr> else position s)"
    and "written (ser (snd (set_mirror_position fr x y verbose s))) =
           written (ser s) @ [''MTI+GT '' @ py_str fr x @ '' '' @ py_str fr y @ '' 0'' @ [LF]]"
    and "rx (ser (snd (set_mirror_position fr x y verbose s))) = tl (rx (ser s))"
    and "is_HV_on (snd (set_mirror_position fr x y verbose s)) = is_HV_on s"
    and "settings (snd (set_mirror_position fr x y verbose s)) = settings s"
    and "is_open (ser (snd (set_mirror_position fr x y verbose s))) = is_open (ser s)"
proof -
  define cmd where "cmd = PyStr (''MTI+GT '' @ py_str fr x @ '' '' @ py_str fr y @ '' 0'')"
  define S2 where "S2 =
     (if verbose
      then print_line (''Going to position x =  '' @ py_str fr x @ '' , y =  '' @ py_str fr y)
             (if \<not> is_HV_on s \<and> verbose
              then print_line ''Note that driver state is OFF right now.'' s else s)
      else (if \<not> is_HV_on s \<and> verbose
            then print_line ''Note that driver state is OFF right now.'' s else s))"
  define S3 where "S3 = snd (send_cmd cmd 250 verbose False S2)"
  have S2: "ser S2 = ser s" "settings S2 = settings s" "is_HV_on S2 = is_HV_on s"
    "position S2 = position s"
    unfolding S2_def by (simp_all only: ser_if_print if_print_frame)
  have fmt: "format_cmd cmd = Inr ((''MTI+GT '' @ py_str fr x @ '' '' @ py_str fr y @ '' 0'') @ [LF])"
    unfolding cmd_def by (rule format_cmd_GT[OF assms(1,2)])
  have S3: "settings S3 = settings s" "is_HV_on S3 = is_HV_on s" "position S3 = position s"
    "is_open (ser S3) = is_open (ser s)"
    unfolding S3_def by (simp_all only: send_cmd_frame S2)
  have S3w: "written (ser S3) = written (ser s) @ [''MTI+GT '' @ py_str fr x @ '' '' @ py_str fr y @ '' 0'' @ [LF]]"
    "rx (ser S3) = tl (rx (ser s))"
    unfolding S3_def by (simp_all only: send_cmd_formatted(2,3)[OF fmt] S2 append_assoc)
  have "set_mirror_position fr x y verbose s =
     (case send_cmd cmd 250 verbose False S2 of
        (Inl e, s3) \<Rightarrow> (Inl e, s3)
      | (Inr resp, s3) \<Rightarrow>
          if resp = ack
          then (Inr (PyBool True), s3\<lparr>position := (position s3)\<lparr>pos_x := x, pos_y := y\<rparr>\<rparr>)
          else (Inr PyNone, s3))"
    unfolding set_mirror_position_def range_test[OF assms(1,2)] cmd_def S2_def Let_def
    using assms(3,4) by simp
  then have sent: "set_mirror_position fr x y verbose s =
     (if \<not> utf8_valid (reply s) then (Inl UnicodeDecodeError, S3)
      else if reply s = ack
        then (Inr (PyBool True), S3\<lparr>position := (position s)\<lparr>pos_x := x, pos_y := y\<rparr>\<rparr>)
      else (Inr PyNone, S3))"
    by (simp only: commit_cases_gen[OF fmt] S2 S3 S3_def[symmetric] reply_def)
  show "fst (set_mirror_position fr x y verbose s) =
           (if \<not> utf8_valid (reply s) then Inl UnicodeDecodeError
            else if reply s = ack then Inr (PyBool True) else Inr PyNone)"
    unfolding sent by (simp only: if_distrib[of fst] fst_conv)
  have upd: "position (st\<lparr>position := p\<rparr>) = p" for st :: MEMS_device and p by simp
  have ackv: "reply s = ack \<Longrightarrow> utf8_valid (reply s)" using utf8_valid_ack by simp
  show "position (snd (set_mirror_position fr x y verbose s)) =
           (if reply s = ack then (position s)\<lparr>pos_x := x, pos_y := y\<rparr> else position s)"
    unfolding sent using ackv
    by (cases "utf8_valid (reply s)"; cases "reply s = ack")
       (simp_all only: if_True if_False snd_conv simp_thms upd S3)
  have frame: "P (snd (set_mirror_position fr x y verbose s))"
    if "P S3" "\<And>p st. P (st\<lparr>position := p\<rparr>) = P st" for P :: "MEMS_device \<Rightarrow> bool"
    unfolding sent using that
    by (cases "utf8_valid (reply s)"; cases "reply s = ack")
       (simp_all only: if_True if_False snd_conv simp_thms)
  show "written (ser (snd (set_mirror_position fr x y verbose s))) =
           written (ser s) @ [''MTI+GT '' @ py_str fr x @ '' '' @ py_str fr y @ '' 0'' @ [LF]]"
    by (rule frame[where P="\<lambda>st. written (ser st) =
           written (ser s) @ [''MTI+GT '' @ py_str fr x @ '' '' @ py_str fr y @ '' 0'' @ [LF]]"])
       (simp only: S3w, simp)
  show "rx (ser (snd (set_mirror_position fr x y verbose s))) = tl (rx (ser s))"
    by (rule frame[where P="\<lambda>st. rx (ser st) = tl (rx (ser s))"]) (simp only: S3w, simp)
  show "is_HV_on (snd (set_mirror_position fr x y verbose s)) = is_HV_on s"
    by (rule frame[where P="\<lambda>st. is_HV_on st = is_HV_on s"]) (simp only: S3, simp)
  show "settings (snd (set_mirror_position fr x y verbose s)) = settings s"
    by (rule frame[where P="\<lambda>st. settings st = settings s"]) (simp only: S3, simp)
  show "is_open (ser (snd (set_mirror_position fr x y verbose s))) = is_open (ser s)"
    by (rule frame[where P="\<lambda>st. is_open (ser st) = is_open (ser s)"]) (simp only: S3, simp)
qed



section \<open>Normalizing a normalized payload\<close>

lemma normalized_slices:
  assumes "normalized b"
  shows "slice_last 2 b \<noteq> [CR, LF]" "slice_last 2 b \<noteq> [LF, CR]" "slice_last 1 b \<noteq> [CR]"
    "b \<noteq> []" "last b = LF"
proof -
  show ne: "b \<noteq> []" and l: "last b = LF" using assms by (simp_all add: normalized_def)
  show "slice_last 2 b \<noteq> [LF, CR]" using slice_last_last[of 2 b "[LF, CR]"] l by auto
  show "slice_last 1 b \<noteq> [CR]" using slice_last_last[of 1 b "[CR]"] l by auto
  show "slice_last 2 b \<noteq> [CR, LF]"
  proof
    assume eq: "slice_last 2 b = [CR, LF]"
    obtain ys where b: "b = ys @ [LF]" using ne l by (metis append_butlast_last_id)
    show False
    proof (cases ys rule: rev_cases)
      case Nil
      then show False using eq b by (simp add: slice_last_def)
    next
      case (snoc zs z)
      then have "z = CR" using eq b by (simp add: slice_last_def)
      moreover have "b = (zs @ [z]) @ [LF]" using b snoc by simp
      then have "butlast b = zs @ [z]" by (simp only: butlast_snoc)
      then have "last (butlast b) = z" "butlast b \<noteq> []" by simp_all
      ultimately show False using assms by (simp add: normalized_def)
    qed
  qed
qed

lemma format_cmd_fixes_normalized:
  assumes "to_bytes p = Inr b" "utf8_valid b" "normalized b"
  shows "format_cmd p = Inr b"
  using assms(1,2) normalized_slices[OF assms(3)]
  by (simp add: format_cmd_def decode_def Let_def)

text \<open>
  Claim C7, as amended. A payload that ends with a line feed not preceded by a carriage return
  is returned unchanged by the normalization, provided it can be coerced and decoded: a text of
  ASCII characters, or bytes that are well-formed UTF-8. On normalized bytes that are not
  well-formed UTF-8 the normalization raises \<^verbatim>\<open>UnicodeDecodeError\<close>, and on a text with a character
  outside ASCII it raises \<^verbatim>\<open>UnicodeEncodeError\<close>.
\<close>

theorem format_cmd_normalized_fixpoint:
  "(normalized t \<and> list_all is_ascii t \<longrightarrow> format_cmd (PyStr t) = Inr t)
   \<and> (normalized b \<and> utf8_valid b \<longrightarrow> format_cmd (PyBytes b) = Inr b)
   \<and> (normalized b \<and> \<not> utf8_valid b \<longrightarrow> format_cmd (PyBytes b) = Inl UnicodeDecodeError)
   \<and> (\<not> list_all is_ascii t \<longrightarrow> format_cmd (PyStr t) = Inl UnicodeEncodeError)"
proof (intro conjI impI)
  assume "normalized t \<and> list_all is_ascii t"
  then show "format_cmd (PyStr t) = Inr t"
    using format_cmd_fixes_normalized[of "PyStr t" t] ascii_utf8_valid[of t]
    by (simp add: to_bytes_def bytes_ascii_def)
next
  assume "normalized b \<and> utf8_valid b"
  then show "format_cmd (PyBytes b) = Inr b"
    using format_cmd_fixes_normalized[of "PyBytes b" b] by (simp add: to_bytes_def)
next
  assume "normalized b \<and> \<not> utf8_valid b"
  then show "format_cmd (PyBytes b) = Inl UnicodeDecodeError"
    by (simp add: format_cmd_def to_bytes_def decode_def)
next
  assume "\<not> list_all is_ascii t"
  then show "format_cmd (PyStr t) = Inl UnicodeEncodeError"
    by (simp add: format_cmd_def to_bytes_def bytes_ascii_def)
qed

theorem format_cmd_normalized_fixpoint_witness:
  "format_cmd (PyStr (''MTI+EN'' @ [LF])) = Inr (''MTI+EN'' @ [LF])
   \<and> format_cmd (PyBytes [CHR 0xC3, CHR 0xA9, LF]) = Inr [CHR 0xC3, CHR 0xA9, LF]
   \<and> format_cmd (PyStr [CHR 0xC3, CHR 0xA9, LF]) = Inl UnicodeEncodeError"
proof -
  have h: "normalized (''MTI+EN'' @ [LF])" "list_all is_ascii (''MTI+EN'' @ [LF])"
    "normalized [CHR 0xC3, CHR 0xA9, LF]" "utf8_valid [CHR 0xC3, CHR 0xA9, LF]"
    "\<not> list_all is_ascii [CHR 0xC3, CHR 0xA9, LF]"
    by (simp_all add: normalized_def is_ascii_def byte_in_def)
  show ?thesis
    using format_cmd_normalized_fixpoint[of "''MTI+EN'' @ [LF]" "[CHR 0xC3, CHR 0xA9, LF]"]
      format_cmd_normalized_fixpoint[of "[CHR 0xC3, CHR 0xA9, LF]" "[CHR 0xC3, CHR 0xA9, LF]"] h
    by blast
qed

theorem format_cmd_normalized_undecodable_raises:
  "normalized [CHR 0xFF, LF]
   \<and> format_cmd (PyBytes [CHR 0xFF, LF]) = Inl UnicodeDecodeError
   \<and> format_cmd (PyBytes [CHR 0xFF, LF]) \<noteq> Inr [CHR 0xFF, LF]"
  by (simp add: normalized_def format_cmd_def to_bytes_def decode_def byte_in_def)

text \<open>
  Beyond normalized inputs the normalization is not idempotent: one carriage return is stripped
  per call, so an output can itself end with CR LF.
\<close>

lemma format_cmd_not_idempotent:
  "format_cmd (PyBytes (''ab'' @ [CR, CR, CR, LF])) = Inr (''ab'' @ [CR, LF])
   \<and> format_cmd (PyBytes (''ab'' @ [CR, LF])) = Inr (''ab'' @ [LF])"
  by (simp add: format_cmd_def to_bytes_def decode_def byte_in_def slice_last_def slice_but_last_def)

section \<open>Sign-on\<close>

lemma utf8_valid_already_logged_in: "utf8_valid already_logged_in"
  by (simp add: byte_in_def)

lemma init_no_reply:
  assumes "fst (ser_readline t) = []"
  shows "init t verbose c =
     (Inr (),
      \<lparr>ser = ser_write (''$MTI$'' @ [LF]) (snd (ser_readline t)), is_HV_on = False,
       settings = class_settings c,
       position = class_position c,
       printed =
         [''Connection unsuccessful: no MEMS driver found on port: '' @ port t,
          ''To check USB connections, open a terminal and run the command:'',
          ''    ls -l /dev/serial/by-id'',
          ''To check port permissions, open a terminal and run the command:'',
          ''    ls -l /dev/insert_your_port_name_here'',
          ''See readme for additional guidance'']\<rparr>)"
  unfolding init_def ser_readline_write prod.case Let_def assms
  by (simp only: if_True print_line_def ser_write_frame ser_readline_frame) simp

lemma init_quiet:
  assumes "fst (ser_readline t) \<noteq> []" "\<not> verbose \<or> fst (ser_readline t) = already_logged_in"
  shows "init t verbose c =
     (Inr (),
      \<lparr>ser = ser_write (''$MTI$'' @ [LF]) (snd (ser_readline t)), is_HV_on = False,
       settings = class_settings c,
       position = class_position c,
       printed = []\<rparr>)"
proof -
  have c: "(verbose \<and> fst (ser_readline t) \<noteq> already_logged_in) = False" using assms(2) by blast
  show ?thesis
    unfolding init_def ser_readline_write prod.case Let_def
    by (simp only: assms(1) c if_False)
qed

lemma init_echo:
  assumes "fst (ser_readline t) \<noteq> []" "verbose" "fst (ser_readline t) \<noteq> already_logged_in"
  shows "init t verbose c =
     (if utf8_valid (fst (ser_readline t)) then
        (Inr (),
         \<lparr>ser = ser_write (''$MTI$'' @ [LF]) (snd (ser_readline t)), is_HV_on = False,
          settings = class_settings c,
          position = class_position c,
          printed = [fst (ser_readline t)]\<rparr>)
      else
        (Inl UnicodeDecodeError,
         \<lparr>ser = ser_write (''$MTI$'' @ [LF]) (snd (ser_readline t)), is_HV_on = False,
          settings = class_settings c,
          position = class_position c,
          printed = []\<rparr>))"
proof -
  have c: "(verbose \<and> fst (ser_readline t) \<noteq> already_logged_in) = True" using assms by blast
  show ?thesis
    unfolding init_def ser_readline_write prod.case Let_def
    by (cases "utf8_valid (fst (ser_readline t))")
       (simp_all only: assms(1) c if_True if_False decode_def sum.case print_line_def, simp_all)
qed

text \<open>
  Claim C9, as amended. With an empty sign-on response the constructor returns normally: it has
  printed the six lines of the "no MEMS driver found" report, the port is as open as it was, the
  high voltage is off, and the session reads the class-level \<^verbatim>\<open>settings\<close> and \<^verbatim>\<open>position\<close>
  dictionaries as they are at that moment, which are the declared defaults only if no earlier
  session has cached a value. The response \<^verbatim>\<open>"MTI-ERR InvalidCommand\r\n"\<close> makes
  it return normally and print nothing. Any other non-empty response makes it return normally
  when \<^verbatim>\<open>verbose\<close> is off or the response decodes as UTF-8; with \<^verbatim>\<open>verbose\<close> on, a response that
  does not decode makes the constructor raise \<^verbatim>\<open>UnicodeDecodeError\<close>.
\<close>

theorem init_sign_on:
  "(fst (ser_readline t) = [] \<longrightarrow>
      fst (init t verbose c) = Inr ()
      \<and> printed (snd (init t verbose c)) =
         [''Connection unsuccessful: no MEMS driver found on port: '' @ port t,
          ''To check USB connections, open a terminal and run the command:'',
          ''    ls -l /dev/serial/by-id'',
          ''To check port permissions, open a terminal and run the command:'',
          ''    ls -l /dev/insert_your_port_name_here'',
          ''See readme for additional guidance'']
      \<and> is_open (ser (snd (init t verbose c))) = is_open t
      \<and> \<not> is_HV_on (snd (init t verbose c))
      \<and> settings (snd (init t verbose c)) = class_settings c
      \<and> position (snd (init t verbose c)) = class_position c)
   \<and> (fst (ser_readline t) = already_logged_in \<longrightarrow>
      fst (init t verbose c) = Inr () \<and> printed (snd (init t verbose c)) = [])
   \<and> (fst (ser_readline t) \<noteq> [] \<and> (\<not> verbose \<or> utf8_valid (fst (ser_readline t))) \<longrightarrow>
      fst (init t verbose c) = Inr ())
   \<and> (fst (ser_readline t) \<noteq> [] \<and> verbose \<and> \<not> utf8_valid (fst (ser_readline t)) \<longrightarrow>
      fst (init t verbose c) = Inl UnicodeDecodeError)"
proof (intro conjI impI)
  assume e: "fst (ser_readline t) = []"
  note eq = init_no_reply[OF e, of verbose c]
  show "fst (init t verbose c) = Inr ()" unfolding eq by (simp only: fst_conv)
  show "printed (snd (init t verbose c)) =
         [''Connection unsuccessful: no MEMS driver found on port: '' @ port t,
          ''To check USB connections, open a terminal and run the command:'',
          ''    ls -l /dev/serial/by-id'',
          ''To check port permissions, open a terminal and run the command:'',
          ''    ls -l /dev/insert_your_port_name_here'',
          ''See readme for additional guidance'']"
    unfolding eq by (simp only: snd_conv MEMS_device.select_convs)
  show "is_open (ser (snd (init t verbose c))) = is_open t"
    unfolding eq by (simp only: snd_conv MEMS_device.select_convs ser_write_frame ser_readline_frame)
  show "\<not> is_HV_on (snd (init t verbose c))"
    unfolding eq by (simp only: snd_conv MEMS_device.select_convs simp_thms)
  show "settings (snd (init t verbose c)) = class_settings c"
    unfolding eq by (simp only: snd_conv MEMS_device.select_convs)
  show "position (snd (init t verbose c)) = class_position c"
    unfolding eq by (simp only: snd_conv MEMS_device.select_convs)
next
  assume a: "fst (ser_readline t) = already_logged_in"
  have ne: "already_logged_in \<noteq> []" by simp
  have "fst (ser_readline t) \<noteq> []" unfolding a by (rule ne)
  then have eq: "init t verbose c =
     (Inr (),
      \<lparr>ser = ser_write (''$MTI$'' @ [LF]) (snd (ser_readline t)), is_HV_on = False,
       settings = class_settings c,
       position = class_position c,
       printed = []\<rparr>)"
    using a by (intro init_quiet) blast+
  show "fst (init t verbose c) = Inr ()"
    unfolding eq by (simp only: fst_conv)
  show "printed (snd (init t verbose c)) = []"
    unfolding eq by (simp only: snd_conv MEMS_device.select_convs)
next
  assume a: "fst (ser_readline t) \<noteq> [] \<and> (\<not> verbose \<or> utf8_valid (fst (ser_readline t)))"
  show "fst (init t verbose c) = Inr ()"
  proof (cases "\<not> verbose \<or> fst (ser_readline t) = already_logged_in")
    case True
    show ?thesis using init_quiet[OF conjunct1[OF a] True] by (simp only: fst_conv)
  next
    case False
    then have v: "verbose" "fst (ser_readline t) \<noteq> already_logged_in" by blast+
    then have u: "utf8_valid (fst (ser_readline t))" using a by blast
    show ?thesis unfolding init_echo[OF conjunct1[OF a] v] using u by (simp only: if_True fst_conv)
  qed
next
  assume a: "fst (ser_readline t) \<noteq> [] \<and> verbose \<and> \<not> utf8_valid (fst (ser_readline t))"
  then have "fst (ser_readline t) \<noteq> already_logged_in"
    using utf8_valid_already_logged_in by metis
  with a show "fst (init t verbose c) = Inl UnicodeDecodeError"
    using init_echo[of t verbose c] by (simp only: if_False fst_conv simp_thms)
qed

lemmas init_defs =
  init_def class_defaults_def mock_def ser_readline_def ser_write_def first_line_def decode_def byte_in_def
  print_line_def Let_def

theorem init_sign_on_witness:
  "fst (init (ser (mock [[], ack])) True class_defaults) = Inr ()
   \<and> hd (printed (snd (init (ser (mock [[], ack])) True class_defaults))) =
       ''Connection unsuccessful: no MEMS driver found on port: /dev/ttyACM0''
   \<and> is_open (ser (snd (init (ser (mock [[], ack])) True class_defaults)))
   \<and> fst (init (ser (mock [already_logged_in])) True class_defaults) = Inr ()
   \<and> fst (init (ser (mock [''MTI-Device Command Mode'' @ [CR, LF]])) True class_defaults) = Inr ()
   \<and> fst (init (ser (mock [[CHR 0xFF]])) False class_defaults) = Inr ()"
proof -
  have h: "fst (ser_readline (ser (mock [[], ack]))) = []"
    "port (ser (mock [[], ack])) = ''/dev/ttyACM0''" "is_open (ser (mock [[], ack]))"
    "fst (ser_readline (ser (mock [already_logged_in]))) = already_logged_in"
    "fst (ser_readline (ser (mock [''MTI-Device Command Mode'' @ [CR, LF]]))) \<noteq> []"
    "utf8_valid (fst (ser_readline (ser (mock [''MTI-Device Command Mode'' @ [CR, LF]]))))"
    "fst (ser_readline (ser (mock [[CHR 0xFF]]))) \<noteq> []"
    by (simp_all add: mock_def ser_readline_def first_line_def byte_in_def)
  have 1: "fst (init (ser (mock [[], ack])) True class_defaults) = Inr ()
     \<and> printed (snd (init (ser (mock [[], ack])) True class_defaults)) =
         [''Connection unsuccessful: no MEMS driver found on port: '' @ port (ser (mock [[], ack])),
          ''To check USB connections, open a terminal and run the command:'',
          ''    ls -l /dev/serial/by-id'',
          ''To check port permissions, open a terminal and run the command:'',
          ''    ls -l /dev/insert_your_port_name_here'',
          ''See readme for additional guidance'']
     \<and> is_open (ser (snd (init (ser (mock [[], ack])) True class_defaults))) = is_open (ser (mock [[], ack]))"
    using init_sign_on[of "ser (mock [[], ack])" True class_defaults] h(1) by blast
  have 2: "fst (init (ser (mock [already_logged_in])) True class_defaults) = Inr ()"
    using init_sign_on[of "ser (mock [already_logged_in])" True class_defaults] h(4) by blast
  have 3: "fst (init (ser (mock [''MTI-Device Command Mode'' @ [CR, LF]])) True class_defaults) = Inr ()"
    using init_sign_on[of "ser (mock [''MTI-Device Command Mode'' @ [CR, LF]])" True class_defaults] h(5,6) by blast
  have 4: "fst (init (ser (mock [[CHR 0xFF]])) False class_defaults) = Inr ()"
    using init_sign_on[of "ser (mock [[CHR 0xFF]])" False class_defaults] h(7) by blast
  have cat: "''Connection unsuccessful: no MEMS driver found on port: '' @ ''/dev/ttyACM0'' =
       ''Connection unsuccessful: no MEMS driver found on port: /dev/ttyACM0''"
    by simp
  have p: "printed (snd (init (ser (mock [[], ack])) True class_defaults)) =
         [''Connection unsuccessful: no MEMS driver found on port: '' @ port (ser (mock [[], ack])),
          ''To check USB connections, open a terminal and run the command:'',
          ''    ls -l /dev/serial/by-id'',
          ''To check port permissions, open a terminal and run the command:'',
          ''    ls -l /dev/insert_your_port_name_here'',
          ''See readme for additional guidance'']"
    using 1 by blast
  have 5: "hd (printed (snd (init (ser (mock [[], ack])) True class_defaults))) =
       ''Connection unsuccessful: no MEMS driver found on port: /dev/ttyACM0''"
    unfolding p h(2) cat by (rule list.sel(1))
  have 6: "is_open (ser (snd (init (ser (mock [[], ack])) True class_defaults)))"
    using 1 h(3) by blast
  from 1 2 3 4 5 6 show ?thesis by blast
qed

theorem init_undecodable_sign_on_raises:
  "fst (ser_readline (ser (mock [[CHR 0xFF]]))) \<noteq> []
   \<and> fst (ser_readline (ser (mock [[CHR 0xFF]]))) \<noteq> already_logged_in
   \<and> fst (init (ser (mock [[CHR 0xFF]])) True class_defaults) = Inl UnicodeDecodeError
   \<and> fst (init (ser (mock [[CHR 0xFF]])) True class_defaults) \<noteq> Inr ()"
  by (simp add: init_defs)

text \<open>After a sign-on that got no response the session still runs commands.\<close>

lemma session_usable_after_silent_sign_on:
  "fst (set_Vbias (PyInt 10) False (snd (init (ser (mock [[], ack])) True class_defaults))) = Inr True"
  by (simp add: init_defs model_defs)

text \<open>
  A second session is constructed on dictionaries that the first one has written: it starts with
  the bias voltage the first session cached.
\<close>

lemma second_session_reads_cached_settings:
  "Vbias (settings (snd (init (ser (mock [ack])) False
       \<lparr>class_settings =
          settings (snd (set_Vbias (PyInt 10) False
                      (snd (init (ser (mock [ack, ack])) False class_defaults)))),
        class_position =
          position (snd (set_Vbias (PyInt 10) False
                      (snd (init (ser (mock [ack, ack])) False class_defaults))))\<rparr>))) = Some 10"
  by (simp add: init_defs model_defs)

section \<open>The exit sequence\<close>

lemma HV_off_sent:
  "HV_off verbose s =
     (if \<not> utf8_valid (reply s)
        then (Inl UnicodeDecodeError,
              snd (send_cmd (PyStr (''MTI+DI'' @ [LF])) 250 verbose False
                    (if verbose then print_line ''Turning High Voltage off'' s else s)))
      else if reply s = ack
        then (Inr True,
              (snd (send_cmd (PyStr (''MTI+DI'' @ [LF])) 250 verbose False
                    (if verbose then print_line ''Turning High Voltage off'' s else s)))\<lparr>is_HV_on := False\<rparr>)
      else (Inr False,
            snd (send_cmd (PyStr (''MTI+DI'' @ [LF])) 250 verbose False
                  (if verbose then print_line ''Turning High Voltage off'' s else s))))"
  unfolding HV_off_def by (simp only: commit_cases[OF format_cmd_DI] ser_if_print reply_def)

lemma HV_off_outcome:
  shows "fst (HV_off verbose s) =
           (if \<not> utf8_valid (reply s) then Inl UnicodeDecodeError else Inr (reply s = ack))"
    and "written (ser (snd (HV_off verbose s))) = written (ser s) @ [''MTI+DI'' @ [LF]]"
    and "rx (ser (snd (HV_off verbose s))) = tl (rx (ser s))"
    and "is_open (ser (snd (HV_off verbose s))) = is_open (ser s)"
    and "position (snd (HV_off verbose s)) = position s"
    and "settings (snd (HV_off verbose s)) = settings s"
proof -
  define S3 where "S3 = snd (send_cmd (PyStr (''MTI+DI'' @ [LF])) 250 verbose False
                    (if verbose then print_line ''Turning High Voltage off'' s else s))"
  have S3: "settings S3 = settings s" "position S3 = position s" "is_open (ser S3) = is_open (ser s)"
    unfolding S3_def by (simp_all only: send_cmd_frame if_print_frame ser_if_print)
  have S3w: "written (ser S3) = written (ser s) @ [''MTI+DI'' @ [LF]]" "rx (ser S3) = tl (rx (ser s))"
    unfolding S3_def by (simp_all only: send_cmd_formatted(2,3)[OF format_cmd_DI] ser_if_print)
  note sent = HV_off_sent[of verbose s, folded S3_def]
  show "fst (HV_off verbose s) =
           (if \<not> utf8_valid (reply s) then Inl UnicodeDecodeError else Inr (reply s = ack))"
    unfolding sent by (simp only: if_distrib[of fst] fst_conv if_bool_Inr)
  have frame: "P (snd (HV_off verbose s))"
    if "P S3" "\<And>b st. P (st\<lparr>is_HV_on := b\<rparr>) = P st" for P :: "MEMS_device \<Rightarrow> bool"
    unfolding sent using that
    by (cases "utf8_valid (reply s)"; cases "reply s = ack")
       (simp_all only: if_True if_False snd_conv simp_thms)
  show "written (ser (snd (HV_off verbose s))) = written (ser s) @ [''MTI+DI'' @ [LF]]"
    by (rule frame[where P="\<lambda>st. written (ser st) = written (ser s) @ [''MTI+DI'' @ [LF]]"])
       (simp only: S3w, simp)
  show "rx (ser (snd (HV_off verbose s))) = tl (rx (ser s))"
    by (rule frame[where P="\<lambda>st. rx (ser st) = tl (rx (ser s))"]) (simp only: S3w, simp)
  show "is_open (ser (snd (HV_off verbose s))) = is_open (ser s)"
    by (rule frame[where P="\<lambda>st. is_open (ser st) = is_open (ser s)"]) (simp only: S3, simp)
  show "position (snd (HV_off verbose s)) = position s"
    by (rule frame[where P="\<lambda>st. position st = position s"]) (simp only: S3, simp)
  show "settings (snd (HV_off verbose s)) = settings s"
    by (rule frame[where P="\<lambda>st. settings st = settings s"]) (simp only: S3, simp)
qed

lemma reply_if_print: "reply (if b then print_line l s else s) = reply s"
  unfolding reply_def by (simp only: ser_if_print)

text \<open>A step of the sequence: run an operation, keep its state, forget its result.\<close>

lemma step_result:
  "fst (case r of (Inl e, st) \<Rightarrow> (Inl e, st) | (Inr d, st) \<Rightarrow> (Inr (), f d st)) =
     (case fst r of Inl e \<Rightarrow> Inl e | Inr d \<Rightarrow> Inr ())"
  by (cases r; cases "fst r") auto

lemma step_state:
  assumes "\<And>d st. P (f d st) = P st"
  shows "P (snd (case r of (Inl e, st) \<Rightarrow> (Inl e, st) | (Inr d, st) \<Rightarrow> (Inr (), f d st))) = P (snd r)"
  using assms by (cases r; cases "fst r") auto

lemma get_mirror_position_quiet:
  "get_mirror_position fr False s = ((pos_x (position s), pos_y (position s)), s)"
  by (simp add: get_mirror_position_def)

lemma zero_number: "is_number (PyInt 0)" "\<not> beyond_unit (PyInt 0)"
  by (simp_all add: is_number_def beyond_unit_def)

lemma str_zero: "py_str fr (PyInt 0) = ''0''"
  by (simp add: py_str_def str_int_def digits.simps)

lemma exit_recentre_centred:
  "\<not> off_centre s \<Longrightarrow> exit_recentre fr verbose s = (Inr (), s)"
  unfolding exit_recentre_def get_mirror_position_quiet off_centre_def by simp

lemma exit_recentre_moves:
  assumes "off_centre s"
  shows "exit_recentre fr verbose s =
     (case set_mirror_position fr (PyInt 0) (PyInt 0) False
             (if verbose then print_line ''Returning to position [0,0]'' s else s) of
        (Inl e, s3) \<Rightarrow> (Inl e, s3)
      | (Inr did_it_work, s3) \<Rightarrow>
          (Inr (),
           if truthy did_it_work then s3
           else print_line ''Warning: could not return mirror to [0,0]'' s3))"
  using assms unfolding exit_recentre_def get_mirror_position_quiet off_centre_def prod.case
  by (simp only: if_True)

lemma exit_recentre_outcome:
  shows "fst (exit_recentre fr verbose s) =
           (if off_centre s \<and> \<not> utf8_valid (reply s) then Inl UnicodeDecodeError else Inr ())"
    and "written (ser (snd (exit_recentre fr verbose s))) =
           written (ser s) @ (if off_centre s then [''MTI+GT 0 0 0'' @ [LF]] else [])"
    and "is_open (ser (snd (exit_recentre fr verbose s))) = is_open (ser s)"
    and "is_HV_on (snd (exit_recentre fr verbose s)) = is_HV_on s"
    and "settings (snd (exit_recentre fr verbose s)) = settings s"
    and "rx (ser (snd (exit_recentre fr verbose s))) =
           (if off_centre s then tl (rx (ser s)) else rx (ser s))"
proof -
  define s' where "s' = (if verbose then print_line ''Returning to position [0,0]'' s else s)"
  define R where "R = set_mirror_position fr (PyInt 0) (PyInt 0) False s'"
  have s': "ser s' = ser s" "reply s' = reply s" "is_HV_on s' = is_HV_on s" "settings s' = settings s"
    unfolding s'_def by (simp_all only: ser_if_print reply_if_print if_print_frame)
  note out = set_mirror_position_outcome[OF zero_number(1) zero_number(1) zero_number(2) zero_number(2),
      of fr False s', folded R_def, unfolded s' str_zero]
  have R1: "(case fst R of Inl e \<Rightarrow> Inl e | Inr d \<Rightarrow> Inr ()) =
      (if \<not> utf8_valid (reply s) then Inl UnicodeDecodeError else Inr ())"
    unfolding out(1)
    by (cases "utf8_valid (reply s)"; cases "reply s = ack")
       (simp_all only: if_True if_False simp_thms sum.case)
  have Rw: "written (ser (snd R)) = written (ser s) @ [''MTI+GT 0 0 0'' @ [LF]]"
    unfolding out(3) by simp
  have moves: "off_centre s \<Longrightarrow> exit_recentre fr verbose s =
     (case R of
        (Inl e, s3) \<Rightarrow> (Inl e, s3)
      | (Inr did_it_work, s3) \<Rightarrow>
          (Inr (),
           if truthy did_it_work then s3
           else print_line ''Warning: could not return mirror to [0,0]'' s3))"
    unfolding R_def s'_def by (rule exit_recentre_moves)
  show "fst (exit_recentre fr verbose s) =
           (if off_centre s \<and> \<not> utf8_valid (reply s) then Inl UnicodeDecodeError else Inr ())"
  proof (cases "off_centre s")
    case True
    show ?thesis unfolding moves[OF True] step_result R1 using True by (simp only: simp_thms)
  next
    case False
    show ?thesis unfolding exit_recentre_centred[OF False] using False by (simp only: simp_thms if_False fst_conv)
  qed
  have frame: "P (snd (exit_recentre fr verbose s)) = (if off_centre s then P (snd R) else P s)"
    if "\<And>l st. P (print_line l st) = P st" for P :: "MEMS_device \<Rightarrow> 'a"
  proof (cases "off_centre s")
    case True
    have "P (if truthy d then st else print_line ''Warning: could not return mirror to [0,0]'' st) = P st"
      for d st by (cases "truthy d") (simp_all only: if_True if_False that)
    then show ?thesis unfolding moves[OF True] using True
      by (simp only: step_state[where P=P] if_True)
  next
    case False
    show ?thesis unfolding exit_recentre_centred[OF False] using False by (simp only: snd_conv if_False)
  qed
  have fw: "written (ser (snd (exit_recentre fr verbose s))) =
      (if off_centre s then written (ser (snd R)) else written (ser s))"
    by (rule frame[of "\<lambda>st. written (ser st)"]) (simp only: print_line_frame)
  have fo: "is_open (ser (snd (exit_recentre fr verbose s))) =
      (if off_centre s then is_open (ser (snd R)) else is_open (ser s))"
    by (rule frame[of "\<lambda>st. is_open (ser st)"]) (simp only: print_line_frame)
  have fh: "is_HV_on (snd (exit_recentre fr verbose s)) =
      (if off_centre s then is_HV_on (snd R) else is_HV_on s)"
    by (rule frame[of is_HV_on]) (simp only: print_line_frame)
  have fs: "settings (snd (exit_recentre fr verbose s)) =
      (if off_centre s then settings (snd R) else settings s)"
    by (rule frame[of settings]) (simp only: print_line_frame)
  show "written (ser (snd (exit_recentre fr verbose s))) =
           written (ser s) @ (if off_centre s then [''MTI+GT 0 0 0'' @ [LF]] else [])"
    unfolding fw Rw by (cases "off_centre s") (simp_all only: if_True if_False append_Nil2)
  show "is_open (ser (snd (exit_recentre fr verbose s))) = is_open (ser s)"
    unfolding fo out(7) by (simp only: if_cancel)
  show "is_HV_on (snd (exit_recentre fr verbose s)) = is_HV_on s"
    unfolding fh out(5) by (simp only: if_cancel)
  show "settings (snd (exit_recentre fr verbose s)) = settings s"
    unfolding fs out(6) by (simp only: if_cancel)
  have fx: "rx (ser (snd (exit_recentre fr verbose s))) =
      (if off_centre s then rx (ser (snd R)) else rx (ser s))"
    by (rule frame[of "\<lambda>st. rx (ser st)"]) (simp only: print_line_frame)
  show "rx (ser (snd (exit_recentre fr verbose s))) =
           (if off_centre s then tl (rx (ser s)) else rx (ser s))"
    unfolding fx out(4) by (rule refl)
qed

lemma exit_HV_off_outcome:
  shows "fst (exit_HV_off verbose s) =
           (if is_HV_on s \<and> \<not> utf8_valid (reply s) then Inl UnicodeDecodeError else Inr ())"
    and "written (ser (snd (exit_HV_off verbose s))) =
           written (ser s) @ (if is_HV_on s then [''MTI+DI'' @ [LF]] else [])"
    and "is_open (ser (snd (exit_HV_off verbose s))) = is_open (ser s)"
    and "rx (ser (snd (exit_HV_off verbose s))) =
           (if is_HV_on s then tl (rx (ser s)) else rx (ser s))"
proof -
  define s' where "s' = (if verbose then print_line ''Turning HV off'' s else s)"
  define R where "R = HV_off False s'"
  have s': "ser s' = ser s" "reply s' = reply s"
    unfolding s'_def by (simp_all only: ser_if_print reply_if_print)
  note out = HV_off_outcome[of False s', folded R_def, unfolded s']
  have R1: "(case fst R of Inl e \<Rightarrow> Inl e | Inr d \<Rightarrow> Inr ()) =
      (if \<not> utf8_valid (reply s) then Inl UnicodeDecodeError else Inr ())"
    unfolding out(1)
    by (cases "utf8_valid (reply s)") (simp_all only: if_True if_False simp_thms sum.case)
  have on: "is_HV_on s \<Longrightarrow> exit_HV_off verbose s =
     (case R of
        (Inl e, s2) \<Rightarrow> (Inl e, s2)
      | (Inr did_it_work, s2) \<Rightarrow>
          (Inr (), if did_it_work then s2 else print_line ''Warning: could not turn HV off'' s2))"
    unfolding exit_HV_off_def R_def s'_def by (simp only: if_True)
  have off: "\<not> is_HV_on s \<Longrightarrow> exit_HV_off verbose s = (Inr (), s)"
    unfolding exit_HV_off_def by (simp only: if_False)
  show "fst (exit_HV_off verbose s) =
           (if is_HV_on s \<and> \<not> utf8_valid (reply s) then Inl UnicodeDecodeError else Inr ())"
  proof (cases "is_HV_on s")
    case True
    show ?thesis unfolding on[OF True] step_result R1 using True by (simp only: simp_thms)
  next
    case False
    show ?thesis unfolding off[OF False] using False by (simp only: simp_thms if_False fst_conv)
  qed
  have frame: "P (snd (exit_HV_off verbose s)) = (if is_HV_on s then P (snd R) else P s)"
    if "\<And>l st. P (print_line l st) = P st" for P :: "MEMS_device \<Rightarrow> 'a"
  proof (cases "is_HV_on s")
    case True
    have "P (if d then st else print_line ''Warning: could not turn HV off'' st) = P st"
      for d st by (cases d) (simp_all only: if_True if_False that)
    then show ?thesis unfolding on[OF True] using True
      by (simp only: step_state[where P=P] if_True)
  next
    case False
    show ?thesis unfolding off[OF False] using False by (simp only: snd_conv if_False)
  qed
  have fw: "written (ser (snd (exit_HV_off verbose s))) =
      (if is_HV_on s then written (ser (snd R)) else written (ser s))"
    by (rule frame[of "\<lambda>st. written (ser st)"]) (simp only: print_line_frame)
  have fo: "is_open (ser (snd (exit_HV_off verbose s))) =
      (if is_HV_on s then is_open (ser (snd R)) else is_open (ser s))"
    by (rule frame[of "\<lambda>st. is_open (ser st)"]) (simp only: print_line_frame)
  show "written (ser (snd (exit_HV_off verbose s))) =
           written (ser s) @ (if is_HV_on s then [''MTI+DI'' @ [LF]] else [])"
    unfolding fw out(2) by (cases "is_HV_on s") (simp_all only: if_True if_False append_Nil2)
  show "is_open (ser (snd (exit_HV_off verbose s))) = is_open (ser s)"
    unfolding fo out(4) by (simp only: if_cancel)
  have fx: "rx (ser (snd (exit_HV_off verbose s))) =
      (if is_HV_on s then rx (ser (snd R)) else rx (ser s))"
    by (rule frame[of "\<lambda>st. rx (ser st)"]) (simp only: print_line_frame)
  show "rx (ser (snd (exit_HV_off verbose s))) =
           (if is_HV_on s then tl (rx (ser s)) else rx (ser s))"
    unfolding fx out(3) by (rule refl)
qed

lemma utf8_valid_exit_ack: "utf8_valid exit_ack"
  by (simp add: byte_in_def)

lemma exit_logout_unfold:
  "exit_logout verbose s =
     (let s3 = (if verbose then print_line ''Logging off:'' s else s)
                \<lparr>ser := ser_write (''MTI+EX'' @ [LF]) (snd (ser_readline (ser s)))\<rparr>
      in if verbose \<and> \<not> utf8_valid (logout_response s) then (Inl UnicodeDecodeError, s3)
         else if logout_response s = exit_ack then
           (Inr True,
            (if verbose then print_line ''Disconnection successful'' else (\<lambda>st. st))
              ((if verbose then print_line (logout_response s) s3 else s3)
                 \<lparr>ser := ser_close (ser_write (''MTI+EX'' @ [LF]) (snd (ser_readline (ser s))))\<rparr>))
         else
           (Inr False,
            print_line ''for manual debugging, the pyserial connection object is stored as self.ser''
              (print_line ''Error: cannot exit command mode on device.  Keeping serial port open''
                (if verbose then print_line (logout_response s) s3 else s3))))"
proof (cases verbose)
  case True
  show ?thesis
  proof (cases "utf8_valid (logout_response s)")
    case v: True
    show ?thesis
      using True v unfolding exit_logout_def logout_response_def Let_def decode_def
      by (simp add: ser_readline_write print_line_frame)
  next
    case v: False
    show ?thesis
      using True v unfolding exit_logout_def logout_response_def Let_def decode_def
      by (simp add: ser_readline_write print_line_frame)
  qed
next
  case False
  show ?thesis
    using False unfolding exit_logout_def logout_response_def Let_def
    by (simp add: ser_readline_write)
qed

lemma exit_logout_outcome:
  shows "verbose \<and> \<not> utf8_valid (logout_response s) \<Longrightarrow>
           fst (exit_logout verbose s) = Inl UnicodeDecodeError"
    and "\<not> verbose \<or> utf8_valid (logout_response s) \<Longrightarrow>
           fst (exit_logout verbose s) = Inr (logout_response s = exit_ack)"
    and "is_open (ser (snd (exit_logout verbose s))) =
           (logout_response s \<noteq> exit_ack \<and> is_open (ser s))"
    and "written (ser (snd (exit_logout verbose s))) = written (ser s) @ [''MTI+EX'' @ [LF]]"
proof -
  define E where "E \<longleftrightarrow> logout_response s = exit_ack"
  define V where "V \<longleftrightarrow> utf8_valid (logout_response s)"
  have EV: "E \<Longrightarrow> V" unfolding E_def V_def using utf8_valid_exit_ack by simp
  note u = exit_logout_unfold[of verbose s, unfolded Let_def, folded E_def V_def]
  show "verbose \<and> \<not> utf8_valid (logout_response s) \<Longrightarrow>
           fst (exit_logout verbose s) = Inl UnicodeDecodeError"
    unfolding u V_def[symmetric] by (simp only: simp_thms if_True fst_conv)
  show "\<not> verbose \<or> utf8_valid (logout_response s) \<Longrightarrow>
           fst (exit_logout verbose s) = Inr (logout_response s = exit_ack)"
    unfolding u V_def[symmetric] E_def[symmetric] by (cases E) auto
  show "is_open (ser (snd (exit_logout verbose s))) =
           (logout_response s \<noteq> exit_ack \<and> is_open (ser s))"
    unfolding u E_def[symmetric] using EV
    by (cases verbose; cases V; cases E)
       (simp_all add: print_line_frame ser_write_frame ser_readline_frame ser_close_frame)
  show "written (ser (snd (exit_logout verbose s))) = written (ser s) @ [''MTI+EX'' @ [LF]]"
    unfolding u using EV
    by (cases verbose; cases V; cases E)
       (simp_all add: print_line_frame ser_write_frame ser_readline_frame ser_close_frame)
qed

lemma off_centre_if_print: "off_centre (if b then print_line l s else s) = off_centre s"
  unfolding off_centre_def by (simp only: if_print_frame)

text \<open>The sequence when its first two steps return.\<close>

lemma exit_safely_when_steps_return:
  "fst (exit_recentre fr verbose (if verbose then print_line ''Starting Exit Sequence'' s else s)) =
     (if off_centre s \<and> \<not> utf8_valid (reply s) then Inl UnicodeDecodeError else Inr ())
   \<and> fst (exit_HV_off verbose s1) =
     (if is_HV_on s1 \<and> \<not> utf8_valid (reply s1) then Inl UnicodeDecodeError else Inr ())
   \<and> (exit_recentre fr verbose (if verbose then print_line ''Starting Exit Sequence'' s else s) = (Inr u, s1)
      \<and> exit_HV_off verbose s1 = (Inr u', s2) \<longrightarrow>
        written (ser (snd (exit_safely fr verbose s))) =
          written (ser s) @ (if off_centre s then [''MTI+GT 0 0 0'' @ [LF]] else [])
            @ (if is_HV_on s then [''MTI+DI'' @ [LF]] else []) @ [''MTI+EX'' @ [LF]]
        \<and> is_open (ser (snd (exit_safely fr verbose s))) =
            (logout_response s2 \<noteq> exit_ack \<and> is_open (ser s))
        \<and> (\<not> verbose \<or> utf8_valid (logout_response s2) \<longrightarrow>
            fst (exit_safely fr verbose s) = Inr (logout_response s2 = exit_ack))
        \<and> (verbose \<and> \<not> utf8_valid (logout_response s2) \<longrightarrow>
            fst (exit_safely fr verbose s) = Inl UnicodeDecodeError))"
proof (intro conjI impI)
  define s0 where "s0 = (if verbose then print_line ''Starting Exit Sequence'' s else s)"
  have s0: "off_centre s0 = off_centre s" "reply s0 = reply s" "ser s0 = ser s"
    "is_HV_on s0 = is_HV_on s"
    unfolding s0_def by (simp_all only: off_centre_if_print reply_if_print ser_if_print if_print_frame)
  show "fst (exit_recentre fr verbose (if verbose then print_line ''Starting Exit Sequence'' s else s)) =
     (if off_centre s \<and> \<not> utf8_valid (reply s) then Inl UnicodeDecodeError else Inr ())"
    unfolding s0_def[symmetric] exit_recentre_outcome(1) s0 by (rule refl)
  show "fst (exit_HV_off verbose s1) =
     (if is_HV_on s1 \<and> \<not> utf8_valid (reply s1) then Inl UnicodeDecodeError else Inr ())"
    by (rule exit_HV_off_outcome(1))
  assume a: "exit_recentre fr verbose (if verbose then print_line ''Starting Exit Sequence'' s else s) = (Inr u, s1)
      \<and> exit_HV_off verbose s1 = (Inr u', s2)"
  then have r: "exit_recentre fr verbose s0 = (Inr u, s1)" and h: "exit_HV_off verbose s1 = (Inr u', s2)"
    unfolding s0_def by blast+
  have s1: "s1 = snd (exit_recentre fr verbose s0)" unfolding r by (simp only: snd_conv)
  have s2: "s2 = snd (exit_HV_off verbose s1)" unfolding h by (simp only: snd_conv)
  have w1: "written (ser s1) = written (ser s) @ (if off_centre s then [''MTI+GT 0 0 0'' @ [LF]] else [])"
    unfolding s1 exit_recentre_outcome(2) s0 by (rule refl)
  have o1: "is_open (ser s1) = is_open (ser s)" unfolding s1 exit_recentre_outcome(3) s0 by (rule refl)
  have h1: "is_HV_on s1 = is_HV_on s" unfolding s1 exit_recentre_outcome(4) s0 by (rule refl)
  have w2: "written (ser s2) = written (ser s1) @ (if is_HV_on s then [''MTI+DI'' @ [LF]] else [])"
    unfolding s2 exit_HV_off_outcome(2) h1 by (rule refl)
  have o2: "is_open (ser s2) = is_open (ser s)" unfolding s2 exit_HV_off_outcome(3) o1 by (rule refl)
  have eq: "exit_safely fr verbose s = exit_logout verbose s2"
    unfolding exit_safely_def s0_def[symmetric] by (simp only: r h prod.case sum.case)
  show "written (ser (snd (exit_safely fr verbose s))) =
          written (ser s) @ (if off_centre s then [''MTI+GT 0 0 0'' @ [LF]] else [])
            @ (if is_HV_on s then [''MTI+DI'' @ [LF]] else []) @ [''MTI+EX'' @ [LF]]"
    unfolding eq exit_logout_outcome(4) w2 w1 by (simp only: append_assoc)
  show "is_open (ser (snd (exit_safely fr verbose s))) =
            (logout_response s2 \<noteq> exit_ack \<and> is_open (ser s))"
    unfolding eq exit_logout_outcome(3) o2 by (rule refl)
  show "fst (exit_safely fr verbose s) = Inr (logout_response s2 = exit_ack)"
    if "\<not> verbose \<or> utf8_valid (logout_response s2)"
    unfolding eq by (rule exit_logout_outcome(2)[OF that])
  show "fst (exit_safely fr verbose s) = Inl UnicodeDecodeError"
    if "verbose \<and> \<not> utf8_valid (logout_response s2)"
    unfolding eq by (rule exit_logout_outcome(1)[OF that])
qed

lemmas exit_defs =
  exit_safely_def exit_recentre_def exit_HV_off_def exit_logout_def get_mirror_position_def
  py_ne_zero_def logout_response_def mock_def ser_readline_def ser_write_def ser_close_def
  first_line_def decode_def byte_in_def print_line_def Let_def

text \<open>
  The specification's own wording of the exit sequence fails on a logout response that is not
  UTF-8: the
  position is centred, the high voltage is off, the response is not the exit acknowledgement,
  and with \<^verbatim>\<open>verbose\<close> on the sequence raises \<^verbatim>\<open>UnicodeDecodeError\<close> instead of returning failure.
  The transport stays open.
\<close>

theorem exit_safely_undecodable_logout_raises:
  "logout_response (mock [[CHR 0xFF]]) \<noteq> exit_ack
   \<and> fst (exit_safely (\<lambda>f. STR ''0.0'') True (mock [[CHR 0xFF]])) = Inl UnicodeDecodeError
   \<and> fst (exit_safely (\<lambda>f. STR ''0.0'') True (mock [[CHR 0xFF]])) \<noteq> Inr False
   \<and> is_open (ser (snd (exit_safely (\<lambda>f. STR ''0.0'') True (mock [[CHR 0xFF]]))))"
  by (simp add: exit_defs)

lemma reply_rx: "reply s = (case rx (ser s) of [] \<Rightarrow> [] | r # rs \<Rightarrow> take 250 r)"
  by (simp add: reply_def ser_read_def split: list.splits)

lemma logout_response_rx:
  "logout_response s = (case rx (ser s) of [] \<Rightarrow> [] | r # rs \<Rightarrow> first_line r)"
  by (simp add: logout_response_def ser_readline_def split: list.splits)

text \<open>
  A reply to the re-centre command that does not decode ends the sequence there: the logout
  command is never sent, whatever the device would have answered to it.
\<close>

lemma exit_safely_aborts_on_undecodable_reply:
  "fst (exit_safely (\<lambda>f. STR ''0.0'') False
         ((mock [[CHR 0xFF], exit_ack])\<lparr>position := \<lparr>pos_x = PyInt 1, pos_y = PyInt 0\<rparr>\<rparr>))
     = Inl UnicodeDecodeError
   \<and> written (ser (snd (exit_safely (\<lambda>f. STR ''0.0'') False
         ((mock [[CHR 0xFF], exit_ack])\<lparr>position := \<lparr>pos_x = PyInt 1, pos_y = PyInt 0\<rparr>\<rparr>))))
     = [''MTI+GT 0 0 0'' @ [LF]]"
  by (simp add: exit_defs model_defs set_mirror_position_def py_or_def py_lt_def py_gt_def
      py_str_def truthy_def)

lemma reply_at_0: "reply_at 0 s = reply s"
  unfolding reply_at_def reply_rx by (simp only: drop_0)

lemma drop_if_tl:
  "(if b then tl xs else xs) = drop (if b then 1 else 0) xs"
  by (cases b) (simp_all add: drop_Suc)

lemma drop_if_tl2:
  "(if c then tl (drop k xs) else drop k xs) = drop (k + (if c then 1 else 0)) xs"
  by (cases c) (simp_all add: drop_Suc tl_drop)

text \<open>
  Claim C4, as amended. The exit sequence runs its steps in a fixed order: the re-centre command
  if the cached position is off centre, the disable command if the high voltage is on, then the
  logout command. A step that reports failure (a reply that decodes and is not the
  acknowledgement) does not stop it. A reply to the re-centre or to the disable command that does
  not decode as UTF-8 raises \<^verbatim>\<open>UnicodeDecodeError\<close> and ends the sequence there: the later commands
  are not written, the logout is not sent. When both steps return, the logout is sent, and its
  response raises \<^verbatim>\<open>UnicodeDecodeError\<close> if \<^verbatim>\<open>verbose\<close> is on and it does not decode; otherwise the
  sequence returns whether that response is \<^verbatim>\<open>"MTI-Device Exit Command Mode\r\n"\<close>. The transport
  is closed exactly when the logout was sent and its response is that literal: it stays open on
  every path that raises and on every other response, and whether a step before the logout
  reported success or failure does not matter.
\<close>

theorem exit_safely_sequence:
  "fst (exit_safely fr verbose s) =
     (if recentre_raises s \<or> HV_off_raises s \<or> (verbose \<and> \<not> utf8_valid (logout_line s))
      then Inl UnicodeDecodeError
      else Inr (logout_line s = exit_ack))
   \<and> written (ser (snd (exit_safely fr verbose s))) =
       written (ser s)
       @ (if off_centre s then [''MTI+GT 0 0 0'' @ [LF]] else [])
       @ (if recentre_raises s then []
          else (if is_HV_on s then [''MTI+DI'' @ [LF]] else [])
               @ (if HV_off_raises s then [] else [''MTI+EX'' @ [LF]]))
   \<and> is_open (ser (snd (exit_safely fr verbose s))) =
       (is_open (ser s)
        \<and> (recentre_raises s \<or> HV_off_raises s \<or> logout_line s \<noteq> exit_ack))"
proof -
  define s0 where "s0 = (if verbose then print_line ''Starting Exit Sequence'' s else s)"
  define R where "R = exit_recentre fr verbose s0"
  define s1 where "s1 = snd R"
  define H where "H = exit_HV_off verbose s1"
  define s2 where "s2 = snd H"
  define RR where "RR \<longleftrightarrow> recentre_raises s"
  define HR where "HR \<longleftrightarrow> HV_off_raises s"
  define OC where "OC \<longleftrightarrow> off_centre s"
  define HV where "HV \<longleftrightarrow> is_HV_on s"
  define L where "L = logout_line s"
  define E where "E \<longleftrightarrow> L = exit_ack"
  define V where "V \<longleftrightarrow> utf8_valid L"
  define cGT where "cGT = ''MTI+GT 0 0 0'' @ [LF]"
  define cDI where "cDI = ''MTI+DI'' @ [LF]"
  define cEX where "cEX = ''MTI+EX'' @ [LF]"
  have s0: "off_centre s0 = off_centre s" "reply s0 = reply s" "ser s0 = ser s"
    "is_HV_on s0 = is_HV_on s"
    unfolding s0_def by (simp_all only: off_centre_if_print reply_if_print ser_if_print if_print_frame)
  have fR: "fst R = (if RR then Inl UnicodeDecodeError else Inr ())"
    unfolding R_def RR_def recentre_raises_def reply_at_0 exit_recentre_outcome(1) s0 by (rule refl)
  have wR: "written (ser s1) = written (ser s) @ (if OC then [cGT] else [])"
    unfolding s1_def R_def OC_def cGT_def exit_recentre_outcome(2) s0 by (rule refl)
  have oR: "is_open (ser s1) = is_open (ser s)"
    unfolding s1_def R_def exit_recentre_outcome(3) s0 by (rule refl)
  have hR: "is_HV_on s1 = is_HV_on s"
    unfolding s1_def R_def exit_recentre_outcome(4) s0 by (rule refl)
  have xR: "rx (ser s1) = drop (if off_centre s then 1 else 0) (rx (ser s))"
    unfolding s1_def R_def exit_recentre_outcome(6) s0 by (rule drop_if_tl)
  have r1: "reply s1 = reply_at (if off_centre s then 1 else 0) s"
    unfolding reply_rx reply_at_def xR by (rule refl)
  have fH: "fst H = (if HR then Inl UnicodeDecodeError else Inr ())"
    unfolding H_def HR_def HV_off_raises_def exit_HV_off_outcome(1) hR r1 by (rule refl)
  have wH: "written (ser s2) = written (ser s1) @ (if HV then [cDI] else [])"
    unfolding s2_def H_def HV_def cDI_def exit_HV_off_outcome(2) hR by (rule refl)
  have oH: "is_open (ser s2) = is_open (ser s)"
    unfolding s2_def H_def exit_HV_off_outcome(3) oR by (rule refl)
  have xH: "rx (ser s2) = drop (steps_before_logout s) (rx (ser s))"
    unfolding s2_def H_def exit_HV_off_outcome(4) hR xR steps_before_logout_def
    by (rule drop_if_tl2)
  have l2: "logout_response s2 = L"
    unfolding L_def logout_response_rx logout_line_def line_at_def xH by (rule refl)
  have EV: "E \<Longrightarrow> V" unfolding E_def V_def using utf8_valid_exit_ack by simp
  have RRoc: "RR \<Longrightarrow> OC" unfolding RR_def OC_def recentre_raises_def by simp
  have HRhv: "HR \<Longrightarrow> HV" unfolding HR_def HV_def HV_off_raises_def by simp
  have u: "exit_safely fr verbose s =
     (case R of
        (Inl e, s1) \<Rightarrow> (Inl e, s1)
      | (Inr u, s1) \<Rightarrow>
     (case exit_HV_off verbose s1 of
        (Inl e, s2) \<Rightarrow> (Inl e, s2)
      | (Inr u', s2) \<Rightarrow> exit_logout verbose s2))"
    unfolding exit_safely_def R_def s0_def by (rule refl)
  have goal: "fst (exit_safely fr verbose s) =
     (if RR \<or> HR \<or> (verbose \<and> \<not> V) then Inl UnicodeDecodeError else Inr E)
   \<and> written (ser (snd (exit_safely fr verbose s))) =
       written (ser s) @ (if OC then [cGT] else [])
       @ (if RR then [] else (if HV then [cDI] else []) @ (if HR then [] else [cEX]))
   \<and> is_open (ser (snd (exit_safely fr verbose s))) =
       (is_open (ser s) \<and> (RR \<or> HR \<or> \<not> E))"
  proof (cases RR)
    case True
    have R: "R = (Inl UnicodeDecodeError, s1)"
      using fR True unfolding s1_def by (metis prod.collapse)
    have e: "exit_safely fr verbose s = (Inl UnicodeDecodeError, s1)"
      unfolding u R by (simp only: prod.case sum.case)
    show ?thesis unfolding e using True RRoc
      by (simp only: fst_conv snd_conv wR oR simp_thms if_True append_Nil2)
  next
    case nR: False
    have R: "R = (Inr (), s1)"
      using fR nR unfolding s1_def by (metis prod.collapse)
    have e1: "exit_safely fr verbose s =
        (case H of (Inl e, s2) \<Rightarrow> (Inl e, s2) | (Inr u', s2) \<Rightarrow> exit_logout verbose s2)"
      unfolding u R H_def by (simp only: prod.case sum.case)
    show ?thesis
    proof (cases HR)
      case True
      have H: "H = (Inl UnicodeDecodeError, s2)"
        using fH True unfolding s2_def by (metis prod.collapse)
      have e: "exit_safely fr verbose s = (Inl UnicodeDecodeError, s2)"
        unfolding e1 H by (simp only: prod.case sum.case)
      show ?thesis unfolding e using True nR HRhv
        by (simp only: fst_conv snd_conv wH wR oH simp_thms if_True if_False append_Nil2 append_assoc)
    next
      case nH: False
      have H: "H = (Inr (), s2)"
        using fH nH unfolding s2_def by (metis prod.collapse)
      note w = exit_safely_when_steps_return[of fr verbose s s1 "()" "()" s2,
          THEN conjunct2, THEN conjunct2, rule_format,
          OF conjI[OF R[unfolded R_def s0_def] H[unfolded H_def]],
          unfolded l2, folded E_def V_def OC_def HV_def cGT_def cDI_def cEX_def]
      have f: "fst (exit_safely fr verbose s) =
          (if verbose \<and> \<not> V then Inl UnicodeDecodeError else Inr E)"
      proof (cases "verbose \<and> \<not> V")
        case True
        show ?thesis using w True by (simp only: simp_thms if_True)
      next
        case False
        then have "\<not> verbose \<or> V" by blast
        with w have "fst (exit_safely fr verbose s) = Inr E" by blast
        then show ?thesis using False by (simp only: if_False)
      qed
      have wr: "written (ser (snd (exit_safely fr verbose s))) =
          written (ser s) @ (if OC then [cGT] else []) @ (if HV then [cDI] else []) @ [cEX]"
        using w by blast
      have op: "is_open (ser (snd (exit_safely fr verbose s))) = (\<not> E \<and> is_open (ser s))"
        using w by blast
      show ?thesis unfolding f wr op using nR nH
        by (simp only: simp_thms if_False) (rule conj_commute)
    qed
  qed
  show ?thesis
    using goal unfolding RR_def HR_def OC_def HV_def E_def V_def L_def cGT_def cDI_def cEX_def
    by (rule iffD1[OF refl])
qed

lemmas exit_vocab =
  recentre_raises_def HV_off_raises_def logout_line_def line_at_def reply_at_def
  steps_before_logout_def off_centre_def py_ne_zero_def first_line_def mock_def byte_in_def

theorem exit_safely_sequence_witness:
  "\<not> recentre_raises
        ((mock [ack, ''MTI-ERR'' @ [CR, LF], exit_ack])
           \<lparr>is_HV_on := True, position := \<lparr>pos_x = PyInt 1, pos_y = PyInt 0\<rparr>\<rparr>)
   \<and> \<not> HV_off_raises
        ((mock [ack, ''MTI-ERR'' @ [CR, LF], exit_ack])
           \<lparr>is_HV_on := True, position := \<lparr>pos_x = PyInt 1, pos_y = PyInt 0\<rparr>\<rparr>)
   \<and> logout_line
        ((mock [ack, ''MTI-ERR'' @ [CR, LF], exit_ack])
           \<lparr>is_HV_on := True, position := \<lparr>pos_x = PyInt 1, pos_y = PyInt 0\<rparr>\<rparr>) = exit_ack
   \<and> fst (exit_safely (\<lambda>f. STR ''0.0'') True
        ((mock [ack, ''MTI-ERR'' @ [CR, LF], exit_ack])
           \<lparr>is_HV_on := True, position := \<lparr>pos_x = PyInt 1, pos_y = PyInt 0\<rparr>\<rparr>)) = Inr True
   \<and> written (ser (snd (exit_safely (\<lambda>f. STR ''0.0'') True
        ((mock [ack, ''MTI-ERR'' @ [CR, LF], exit_ack])
           \<lparr>is_HV_on := True, position := \<lparr>pos_x = PyInt 1, pos_y = PyInt 0\<rparr>\<rparr>)))) =
       [''MTI+GT 0 0 0'' @ [LF], ''MTI+DI'' @ [LF], ''MTI+EX'' @ [LF]]
   \<and> \<not> is_open (ser (snd (exit_safely (\<lambda>f. STR ''0.0'') True
        ((mock [ack, ''MTI-ERR'' @ [CR, LF], exit_ack])
           \<lparr>is_HV_on := True, position := \<lparr>pos_x = PyInt 1, pos_y = PyInt 0\<rparr>\<rparr>))))
   \<and> recentre_raises
        ((mock [[CHR 0xFF], exit_ack])\<lparr>position := \<lparr>pos_x = PyInt 1, pos_y = PyInt 0\<rparr>\<rparr>)
   \<and> fst (exit_safely (\<lambda>f. STR ''0.0'') False
        ((mock [[CHR 0xFF], exit_ack])\<lparr>position := \<lparr>pos_x = PyInt 1, pos_y = PyInt 0\<rparr>\<rparr>))
       = Inl UnicodeDecodeError
   \<and> written (ser (snd (exit_safely (\<lambda>f. STR ''0.0'') False
        ((mock [[CHR 0xFF], exit_ack])\<lparr>position := \<lparr>pos_x = PyInt 1, pos_y = PyInt 0\<rparr>\<rparr>))))
       = [''MTI+GT 0 0 0'' @ [LF]]
   \<and> is_open (ser (snd (exit_safely (\<lambda>f. STR ''0.0'') False
        ((mock [[CHR 0xFF], exit_ack])\<lparr>position := \<lparr>pos_x = PyInt 1, pos_y = PyInt 0\<rparr>\<rparr>))))"
proof -
  let ?s = "(mock [ack, ''MTI-ERR'' @ [CR, LF], exit_ack])
           \<lparr>is_HV_on := True, position := \<lparr>pos_x = PyInt 1, pos_y = PyInt 0\<rparr>\<rparr>"
  let ?t = "(mock [[CHR 0xFF], exit_ack])\<lparr>position := \<lparr>pos_x = PyInt 1, pos_y = PyInt 0\<rparr>\<rparr>"
  have r: "\<not> recentre_raises ?s" by (simp add: exit_vocab)
  have h: "\<not> HV_off_raises ?s" by (simp add: exit_vocab)
  have l: "logout_line ?s = exit_ack" by (simp add: exit_vocab)
  have o: "off_centre ?s" "is_HV_on ?s" "is_open (ser ?s)" "written (ser ?s) = []"
    by (simp_all add: exit_vocab)
  have v: "utf8_valid exit_ack" by (rule utf8_valid_exit_ack)
  have r': "recentre_raises ?t" by (simp add: exit_vocab)
  have o': "off_centre ?t" "is_open (ser ?t)" "written (ser ?t) = []"
    by (simp_all add: exit_vocab)
  note a = exit_safely_sequence[of "\<lambda>f. STR ''0.0''" True ?s]
  note b = exit_safely_sequence[of "\<lambda>f. STR ''0.0''" False ?t]
  have a1: "fst (exit_safely (\<lambda>f. STR ''0.0'') True ?s) = Inr True"
    by (simp only: a[THEN conjunct1] r h l v simp_thms if_False)
  have a2: "written (ser (snd (exit_safely (\<lambda>f. STR ''0.0'') True ?s))) =
       [''MTI+GT 0 0 0'' @ [LF], ''MTI+DI'' @ [LF], ''MTI+EX'' @ [LF]]"
    by (simp only: a[THEN conjunct2, THEN conjunct1] r h o simp_thms if_True if_False, simp)
  have a3: "\<not> is_open (ser (snd (exit_safely (\<lambda>f. STR ''0.0'') True ?s)))"
    by (simp only: a[THEN conjunct2, THEN conjunct2] r h l simp_thms)
  have b1: "fst (exit_safely (\<lambda>f. STR ''0.0'') False ?t) = Inl UnicodeDecodeError"
    by (simp only: b[THEN conjunct1] r' simp_thms if_True)
  have b2: "written (ser (snd (exit_safely (\<lambda>f. STR ''0.0'') False ?t))) = [''MTI+GT 0 0 0'' @ [LF]]"
    by (simp only: b[THEN conjunct2, THEN conjunct1] r' o' simp_thms if_True, simp)
  have b3: "is_open (ser (snd (exit_safely (\<lambda>f. STR ''0.0'') False ?t)))"
    by (simp only: b[THEN conjunct2, THEN conjunct2] r' o' simp_thms)
  from r h l a1 a2 a3 r' b1 b2 b3 show ?thesis by (intro conjI)
qed

end
